theory Spec2Isabelle
  imports Complex_Main "HOL-Library.Signed_Division"
begin

section \<open>The sleep planner of PediatricSleepApp.tsx\<close>

text \<open>
  The source file holds two versions of the planner, one after the other: the first at
  lines 1--724, the second at lines 725--1507. Their time helpers are the same text;
  their tables and their \<open>scheduleData\<close> derivations differ. Definitions that exist
  once carry the source's name; where the two versions differ the first is suffixed
  \<open>_A\<close> and the second \<open>_B\<close>.

  Numbers. A JavaScript \<open>number\<close> is modelled as an \<open>int\<close>, and as an \<open>int option\<close>
  where it is read from a string, \<open>None\<close> being \<open>NaN\<close>. Ages are whole months (the
  age slider delivers them through \<open>parseInt\<close>). Every fraction the source computes
  (the progress within a band, the factors 0.8, 0.85 and 0.9) is rounded at once by
  \<open>Math.round\<close>; the model computes it over the rationals. For the bands of the two
  tables and whole ages the exact value is a whole number, a half, or at least 1/46
  away from a half, so the double-precision result rounds to the same integer.
\<close>

subsection \<open>Strings and numbers of the host language\<close>

definition isDigit :: "char \<Rightarrow> bool" where
  "isDigit c = (c \<in> set ''0123456789'')"

definition digitVal :: "char \<Rightarrow> int" where
  "digitVal c = int (of_char c) - 48"

definition digitsVal :: "string \<Rightarrow> int" where
  "digitsVal s = foldl (\<lambda>acc c. 10 * acc + digitVal c) 0 s"

text \<open>
  \<open>Number(s)\<close> on the strings the planner reads: a run of decimal digits (the empty
  string is 0), with an optional sign before a non-empty run. Every other string is
  \<open>NaN\<close> here; the further numeric syntax of JavaScript (blanks around the number,
  fractions, exponents, hexadecimal, \<open>Infinity\<close>) is outside the model.
\<close>

definition Number :: "string \<Rightarrow> int option" where
  "Number s =
     (if list_all isDigit s then Some (digitsVal s)
      else case s of
        c # ds \<Rightarrow>
          if ds \<noteq> [] \<and> list_all isDigit ds \<and> c = CHR ''-'' then Some (- digitsVal ds)
          else if ds \<noteq> [] \<and> list_all isDigit ds \<and> c = CHR ''+'' then Some (digitsVal ds)
          else None
      | [] \<Rightarrow> None)"

text \<open>\<open>s.split(':')\<close>: the fields between the colons, at least one.\<close>

fun split_colon :: "string \<Rightarrow> string list" where
  "split_colon [] = [[]]"
| "split_colon (c # cs) =
     (if c = CHR '':'' then [] # split_colon cs
      else case split_colon cs of
        f # fs \<Rightarrow> (c # f) # fs
      | [] \<Rightarrow> [[c]])"

definition digitChar :: "nat \<Rightarrow> char" where
  "digitChar d = ''0123456789'' ! d"

text \<open>\<open>n.toString()\<close> of an integer: decimal digits, a minus sign when negative.\<close>

fun natToString :: "nat \<Rightarrow> string" where
  "natToString n =
     (if n < 10 then [digitChar n] else natToString (n div 10) @ [digitChar (n mod 10)])"

definition toString :: "int \<Rightarrow> string" where
  "toString i = (if i < 0 then CHR ''-'' # natToString (nat (- i)) else natToString (nat i))"

text \<open>\<open>s.padStart(n, c)\<close> with a one-character filler.\<close>

definition padStart :: "nat \<Rightarrow> char \<Rightarrow> string \<Rightarrow> string" where
  "padStart n c s = replicate (n - length s) c @ s"

text \<open>\<open>s.includes(t)\<close>.\<close>

fun startsWith :: "string \<Rightarrow> string \<Rightarrow> bool" where
  "startsWith s [] = True"
| "startsWith [] (d # ds) = False"
| "startsWith (c # cs) (d # ds) = (c = d \<and> startsWith cs ds)"

fun includes_str :: "string \<Rightarrow> string \<Rightarrow> bool" where
  "includes_str [] t = (t = [])"
| "includes_str (c # cs) t = (startsWith (c # cs) t \<or> includes_str cs t)"

text \<open>
  Arithmetic on numbers that may be \<open>NaN\<close>: a comparison with \<open>NaN\<close> is false, and
  \<open>+\<close>, \<open>Math.max\<close> and \<open>Math.min\<close> give \<open>NaN\<close> when an argument is \<open>NaN\<close>.
\<close>

definition num_less :: "int option \<Rightarrow> int option \<Rightarrow> bool" where
  "num_less a b = (case a of None \<Rightarrow> False | Some x \<Rightarrow> (case b of None \<Rightarrow> False | Some y \<Rightarrow> x < y))"

definition num_add :: "int option \<Rightarrow> int \<Rightarrow> int option" where
  "num_add a k = (case a of None \<Rightarrow> None | Some x \<Rightarrow> Some (x + k))"

definition num_max :: "int option \<Rightarrow> int option \<Rightarrow> int option" where
  "num_max a b = (case a of None \<Rightarrow> None | Some x \<Rightarrow> (case b of None \<Rightarrow> None | Some y \<Rightarrow> Some (max x y)))"

definition num_min :: "int option \<Rightarrow> int option \<Rightarrow> int option" where
  "num_min a b = (case a of None \<Rightarrow> None | Some x \<Rightarrow> (case b of None \<Rightarrow> None | Some y \<Rightarrow> Some (min x y)))"

subsection \<open>Time helpers (lines 102--141, again at 880--917)\<close>

definition timeToMinutes :: "string \<Rightarrow> int option" where
  "timeToMinutes time =
     (if time = [] then Some 0
      else case map Number (split_colon time) of
        Some h # Some m # _ \<Rightarrow> Some (h * 60 + m)
      | _ \<Rightarrow> None)"

text \<open>
  \<open>Math.floor(minutes / 60)\<close> is \<open>div\<close>; the remainder operator \<open>%\<close> of JavaScript takes
  the sign of the dividend, which is \<open>smod\<close>.
\<close>

definition minutesToTime :: "int \<Rightarrow> string" where
  "minutesToTime minutes =
     (let h = minutes div 60;
          m = minutes smod 60;
          h = (if h \<ge> 24 then h - 24 else h);
          h = (if h < 0 then h + 24 else h)
      in padStart 2 CHR ''0'' (toString h) @ '':'' @ padStart 2 CHR ''0'' (toString m))"

text \<open>On \<open>NaN\<close> every test of \<open>minutesToTime\<close> is false and both fields print \<open>NaN\<close>.\<close>

definition minutesToTimeNum :: "int option \<Rightarrow> string" where
  "minutesToTimeNum minutes =
     (case minutes of None \<Rightarrow> ''NaN:NaN'' | Some k \<Rightarrow> minutesToTime k)"

definition addMinutes :: "string \<Rightarrow> int \<Rightarrow> string" where
  "addMinutes time mins = minutesToTimeNum (num_add (timeToMinutes time) mins)"

definition getDuration :: "string \<Rightarrow> string \<Rightarrow> int option" where
  "getDuration start end =
     (case timeToMinutes end of
        None \<Rightarrow> None
      | Some e \<Rightarrow>
          (case timeToMinutes start of
             None \<Rightarrow> None
           | Some s \<Rightarrow> (let diff = e - s in Some (if diff < 0 then diff + 1440 else diff))))"

definition isLater :: "string \<Rightarrow> string \<Rightarrow> bool" where
  "isLater a b = num_less (timeToMinutes b) (timeToMinutes a)"

subsection \<open>Data model (lines 12--45)\<close>

datatype AgeGroupKey = G_0_3 | G_4_6 | G_7_12 | G_13_18 | G_19_36 | G_36_plus

datatype mode = Window | Hybrid | Clock

text \<open>
  \<open>label\<close> and \<open>description\<close> of a \<open>SleepStandard\<close> are display texts that no
  computation reads; the field \<open>label\<close> holds the key of the band they belong to.
\<close>

record SleepStandard =
  minWake :: int
  maxWake :: int
  naps :: int
  label :: AgeGroupKey
  mode :: mode
  bedtimeWindow :: int
  rangeStart :: int
  rangeEnd :: int
  tooLongNapMinutes :: int
  latestNapEndTime :: string
  idealBedtime :: string

record NapEntry =
  id_nap :: string
  startTime_nap :: string
  endTime_nap :: string
  duration :: "int option"

datatype event_type = Wake | Nap | Bedtime

datatype alert = Normal | Warning | Critical

text \<open>
  The German display texts. A constructor stands for one string literal or template of
  the source; its arguments are the values the template interpolates, in order. Texts
  are kept as lists of these parts, since the source builds some by \<open>+=\<close>. (Umlauts
  are transliterated in the quotations below.)

  First version:
  \<^item> \<open>StartSchlafdruck\<close>: 'Start des Schlafdruck-Aufbaus.' (l. 169)
  \<^item> \<open>LichtFruehstueck\<close>: 'Licht und Fruehstueck helfen, die innere Uhr zu stellen.' (l. 170)
  \<^item> \<open>FruehesAufwachenCapping\<close>: 'Fruehes Aufwachen (05:00): Strategie "Nap Capping"
    aktiviert, um Nachtschlaf zu verlaengern.' (l. 180)
  \<^item> \<open>GuteErholung\<close>: 'Gute Erholung.' (l. 188)
  \<^item> \<open>KurzerNapVerkuerzen\<close>: 'Kurzer Nap baut Schlafdruck nur unvollstaendig ab. Naechstes
    Wachfenster verkuerzen.' (l. 191)
  \<^item> \<open>ZuLangerNapStiehlt\<close>: 'Zu langer Nap "stiehlt" Schlafdruck fuer die Nacht.' (l. 194)
  \<^item> \<open>DauerMin d\<close>: `d min.` (l. 203, l. 971)
  \<^item> \<open>VorherigerNapKurz\<close>: 'Vorheriger Nap war kurz: Naechstes Wachfenster deutlich
    reduziert.' (l. 225)
  \<^item> \<open>StartWeckenUm s w\<close>: `Start: s | Wecken um: w` (l. 255)
  \<^item> \<open>KompromisszeitWecken w\<close>: `Kompromisszeit 11:00 Uhr. WICHTIG: Nach 75 Min (w) wecken!
    Das sichert genug Schlafdruck fuer eine Bettzeit um 18:15 Uhr.` (l. 256)
  \<^item> \<open>WichtigNach75MinutenBeenden\<close>: 'WICHTIG: Mittagsschlaf nach 75 Minuten beenden
    (Wecken), damit die Bettzeit heute Abend passt.' (l. 259)
  \<^item> \<open>ZielzeitCa s\<close>: `Zielzeit ca. s. Dauer: 90 Min.` (l. 267)
  \<^item> \<open>StandardMittagsschlafzeit\<close>: 'Standard-Mittagsschlafzeit passend zum Wachfenster.'
    (l. 268)
  \<^item> \<open>DauerCa d\<close>: `Dauer ca. d Min.` (l. 277)
  \<^item> \<open>BasiertAufWachfenster w\<close>: `Basiert auf Wachfenster von ca. h Std.` (l. 278), where
    \<open>h\<close> is the wake window \<open>w\<close> (minutes) as hours with one decimal
  \<^item> \<open>AchtungNapEndetSpaet e\<close>: ` ACHTUNG: Nap endet sehr spaet (e). Gefahr fuer
    Bettzeit!` (l. 285)
  \<^item> \<open>Nachtruhe\<close>: "Nachtruhe" (l. 331)
  \<^item> \<open>WachzeitVorBett w\<close>: `Wachzeit vor Bett: h Std.` (l. 332), \<open>h\<close> as above
  \<^item> \<open>Uhr1815Bis1845\<close>: "18:15 - 18:45 Uhr" (l. 337)
  \<^item> \<open>NachDemWecken1215\<close>: "Nach dem Wecken um 12:15 Uhr benoetigt das Kind ca. 5,5-6h
    Wachzeit. Ziel: Uebermuedung vermeiden, aber Schlafdruck nutzen." (l. 338)
  \<^item> \<open>AusgleichFruehenStart\<close>: "Ausgleich fuer fruehen Start" (l. 346)
  \<^item> \<open>FrueheBettzeitNoetig\<close>: "Wegen des fruehen Morgens ist eine fruehe Bettzeit
    noetig." (l. 347)
  \<^item> \<open>WachfensterSehrLang\<close>: "Wachfenster wurde sehr lang. Risiko, dass das Kind
    ueberdreht." (l. 351)

  Second version:
  \<^item> \<open>BeginnWachabschnitt\<close>: 'Beginn des Wachabschnitts (Schlafdruckaufbau).' (l. 953)
  \<^item> \<open>TageslichtAmMorgen\<close>: 'Tageslicht am Morgen sowie Fruehstueck und Bewegung ...'
    (l. 955)
  \<^item> \<open>SehrFruehesErwachen\<close>: 'Sehr fruehes Erwachen (< 06:00): Tagesrhythmus kann nach vorn
    kippen. Erstes Schlaefchen tendenziell leicht hinauszoegern.' (l. 960)
  \<^item> \<open>MarkeKurz\<close>, \<open>MarkeSehrLang\<close>, \<open>MarkeErholsam\<close>: the suffixes ' Kurz', ' Sehr lang',
    ' Erholsam' with their pictographs (l. 976, 982, 988)
  \<^item> \<open>KurzerNapZyklus\<close>: 'Kurzer Nap: Ein Schlafzyklus wurde vermutlich nicht
    vollendet. ...' (l. 978)
  \<^item> \<open>SehrLangerTagschlaf\<close>: 'Sehr langer Tagschlaf kann den Schlafdruck fuer die Nacht
    reduzieren ...' (l. 984)
  \<^item> \<open>GuteNapLaenge\<close>: 'Gute Nap-Laenge: Unterstuetzt Erholung und Stabilitaet, ...' (l. 990)
  \<^item> \<open>NapWarKurz n\<close>: `Nap n war kurz. Naechstes Wachfenster etwas verkuerzen.` (l. 1009)
  \<^item> \<open>NapEndetSehrSpaet n t\<close>: `Nap n wuerde voraussichtlich sehr spaet enden (nach t). Das
    kann die Bettzeit deutlich nach hinten verschieben - ggf. frueher starten oder
    kuerzen (Nap-Capping).` (l. 1055)
  \<^item> \<open>ImUhrzeitModus\<close>: `Im Uhrzeit-Modus wird der Mittagsschlaf bewusst "by the clock"
    geplant, um die innere Uhr zu stabilisieren.` (l. 1062)
  \<^item> \<open>Orientierungswert a w\<close>: `Orientierungswert fuer a Monate: Wachfenster ca. h Std.`
    (l. 1063), \<open>h\<close> the wake window \<open>w\<close> as hours with one decimal
  \<^item> \<open>VoraussichtlicheDauer d\<close>: `Voraussichtliche Dauer: ca. d Min.` (l. 1070)
  \<^item> \<open>LetzterTagschlafSpaet t\<close>: `Der letzte Tagschlaf endet im Verhaeltnis zur
    Ziel-Bettzeit (t) eher spaet. Das kann die Bettzeit nach hinten verschieben - ggf.
    Nap frueher beenden oder kuerzen (Nap-Capping).` (l. 1098)
  \<^item> \<open>BeginnNachtruhe\<close>: 'Beginn der Nachtruhe.' (l. 1107)
  \<^item> \<open>BerechnungEndeLetzterSchlaf w\<close>: `Berechnung: Ende des letzten Schlafs + h Std.
    Wachzeit.` (l. 1108)
  \<^item> \<open>FruehereBettzeitStabilisierung\<close>: 'Fruehere Bettzeit zur Stabilisierung
    (Uebermuedung vorbeugen).' (l. 1112)
  \<^item> \<open>Anker1800\<close>: 'Die rechnerische Bettzeit waere sehr frueh. 18:00 dient haeufig als
    sinnvoller Anker, ...' (l. 1113)
  \<^item> \<open>SpaeterSchlafbeginn\<close>: 'Hinweis: Spaeter Schlafbeginn moeglich.' (l. 1116)
  \<^item> \<open>SecondWind\<close>: 'Bei sehr spaetem Einschlafen steigt das Risiko fuer "Second Wind"
    ...' (l. 1117)

  The hours figure \<open>h\<close> of the four templates that show one is
  \<open>Math.round(w / 60 * 10) / 10\<close>, a floating-point computation that only these texts
  use; the constructors keep the minutes \<open>w\<close> it is computed from.
\<close>

datatype msg =
    StartSchlafdruck | LichtFruehstueck | FruehesAufwachenCapping | GuteErholung
  | KurzerNapVerkuerzen | ZuLangerNapStiehlt | DauerMin "int option" | VorherigerNapKurz
  | StartWeckenUm string string | KompromisszeitWecken string | WichtigNach75MinutenBeenden
  | ZielzeitCa string | StandardMittagsschlafzeit | DauerCa int | BasiertAufWachfenster int
  | AchtungNapEndetSpaet string | Nachtruhe | WachzeitVorBett int | Uhr1815Bis1845
  | NachDemWecken1215 | AusgleichFruehenStart | FrueheBettzeitNoetig | WachfensterSehrLang
  | BeginnWachabschnitt | TageslichtAmMorgen | SehrFruehesErwachen
  | MarkeKurz | MarkeSehrLang | MarkeErholsam
  | KurzerNapZyklus | SehrLangerTagschlaf | GuteNapLaenge | NapWarKurz int
  | NapEndetSehrSpaet int string | ImUhrzeitModus | Orientierungswert int int
  | VoraussichtlicheDauer int | LetzterTagschlafSpaet string | BeginnNachtruhe
  | BerechnungEndeLetzterSchlaf int | FruehereBettzeitStabilisierung | Anker1800
  | SpaeterSchlafbeginn | SecondWind

record PlannedEvent =
  type :: event_type
  startTime :: string
  endTime :: "string option"
  title :: string
  description :: "msg list"
  reasoning :: "msg list"
  isPrediction :: bool
  alertLevel :: "alert option"

text \<open>
  What \<open>scheduleData\<close> returns: \<open>{ events, warnings, standard }\<close>, in the second
  version with \<open>specificWakeWindow\<close> as well.
\<close>

record DerivationResult =
  events :: "PlannedEvent list"
  warnings :: "msg list"
  standard :: SleepStandard

record DerivationResult_B = DerivationResult +
  specificWakeWindow :: int

subsection \<open>The tables (lines 49--98 and 774--877)\<close>

fun SLEEP_STANDARDS_A :: "AgeGroupKey \<Rightarrow> SleepStandard" where
  "SLEEP_STANDARDS_A G_0_3 =
     \<lparr>minWake = 45, maxWake = 90, naps = 4, label = G_0_3, mode = Window,
      bedtimeWindow = 90, rangeStart = 0, rangeEnd = 3,
      tooLongNapMinutes = 120, latestNapEndTime = ''18:00'', idealBedtime = ''20:00''\<rparr>"
| "SLEEP_STANDARDS_A G_4_6 =
     \<lparr>minWake = 90, maxWake = 150, naps = 3, label = G_4_6, mode = Window,
      bedtimeWindow = 150, rangeStart = 4, rangeEnd = 6,
      tooLongNapMinutes = 120, latestNapEndTime = ''17:30'', idealBedtime = ''19:30''\<rparr>"
| "SLEEP_STANDARDS_A G_7_12 =
     \<lparr>minWake = 150, maxWake = 210, naps = 2, label = G_7_12, mode = Hybrid,
      bedtimeWindow = 210, rangeStart = 7, rangeEnd = 12,
      tooLongNapMinutes = 120, latestNapEndTime = ''16:30'', idealBedtime = ''19:30''\<rparr>"
| "SLEEP_STANDARDS_A G_13_18 =
     \<lparr>minWake = 240, maxWake = 300, naps = 1, label = G_13_18, mode = Hybrid,
      bedtimeWindow = 270, rangeStart = 13, rangeEnd = 18,
      tooLongNapMinutes = 150, latestNapEndTime = ''15:00'', idealBedtime = ''19:30''\<rparr>"
| "SLEEP_STANDARDS_A G_19_36 =
     \<lparr>minWake = 300, maxWake = 360, naps = 1, label = G_19_36, mode = Clock,
      bedtimeWindow = 360, rangeStart = 19, rangeEnd = 36,
      tooLongNapMinutes = 120, latestNapEndTime = ''15:00'', idealBedtime = ''19:30''\<rparr>"
| "SLEEP_STANDARDS_A G_36_plus =
     \<lparr>minWake = 360, maxWake = 720, naps = 0, label = G_36_plus, mode = Clock,
      bedtimeWindow = 720, rangeStart = 37, rangeEnd = 60,
      tooLongNapMinutes = 60, latestNapEndTime = ''14:30'', idealBedtime = ''20:00''\<rparr>"

fun SLEEP_STANDARDS_B :: "AgeGroupKey \<Rightarrow> SleepStandard" where
  "SLEEP_STANDARDS_B G_0_3 =
     \<lparr>minWake = 45, maxWake = 90, naps = 4, label = G_0_3, mode = Window,
      bedtimeWindow = 90, rangeStart = 0, rangeEnd = 3,
      tooLongNapMinutes = 150, latestNapEndTime = ''18:00'', idealBedtime = ''20:00''\<rparr>"
| "SLEEP_STANDARDS_B G_4_6 =
     \<lparr>minWake = 90, maxWake = 150, naps = 3, label = G_4_6, mode = Window,
      bedtimeWindow = 150, rangeStart = 4, rangeEnd = 6,
      tooLongNapMinutes = 150, latestNapEndTime = ''17:30'', idealBedtime = ''19:30''\<rparr>"
| "SLEEP_STANDARDS_B G_7_12 =
     \<lparr>minWake = 150, maxWake = 210, naps = 2, label = G_7_12, mode = Hybrid,
      bedtimeWindow = 210, rangeStart = 7, rangeEnd = 12,
      tooLongNapMinutes = 150, latestNapEndTime = ''16:30'', idealBedtime = ''19:30''\<rparr>"
| "SLEEP_STANDARDS_B G_13_18 =
     \<lparr>minWake = 210, maxWake = 300, naps = 1, label = G_13_18, mode = Hybrid,
      bedtimeWindow = 270, rangeStart = 13, rangeEnd = 18,
      tooLongNapMinutes = 150, latestNapEndTime = ''15:30'', idealBedtime = ''19:30''\<rparr>"
| "SLEEP_STANDARDS_B G_19_36 =
     \<lparr>minWake = 300, maxWake = 360, naps = 1, label = G_19_36, mode = Clock,
      bedtimeWindow = 330, rangeStart = 19, rangeEnd = 36,
      tooLongNapMinutes = 150, latestNapEndTime = ''15:30'', idealBedtime = ''19:30''\<rparr>"
| "SLEEP_STANDARDS_B G_36_plus =
     \<lparr>minWake = 360, maxWake = 720, naps = 0, label = G_36_plus, mode = Clock,
      bedtimeWindow = 720, rangeStart = 37, rangeEnd = 60,
      tooLongNapMinutes = 120, latestNapEndTime = ''15:00'', idealBedtime = ''20:00''\<rparr>"

subsection \<open>Band lookup and interpolation (lines 126--139, again at 904--917)\<close>

definition ageGroup :: "int \<Rightarrow> AgeGroupKey" where
  "ageGroup month =
     (if month \<le> 3 then G_0_3
      else if month \<le> 6 then G_4_6
      else if month \<le> 12 then G_7_12
      else if month \<le> 18 then G_13_18
      else if month \<le> 36 then G_19_36
      else G_36_plus)"

definition getStandardByMonth_A :: "int \<Rightarrow> SleepStandard" where
  "getStandardByMonth_A month = SLEEP_STANDARDS_A (ageGroup month)"

definition getStandardByMonth_B :: "int \<Rightarrow> SleepStandard" where
  "getStandardByMonth_B month = SLEEP_STANDARDS_B (ageGroup month)"

text \<open>\<open>Math.round\<close> rounds a half up, as \<open>round\<close> does: \<open>round x = \<lfloor>x + 1/2\<rfloor>\<close>.\<close>

definition calculateInterpolatedWakeWindow :: "int \<Rightarrow> SleepStandard \<Rightarrow> int" where
  "calculateInterpolatedWakeWindow month std =
     (if rangeStart std = rangeEnd std then maxWake std
      else
        let progress = (of_int (month - rangeStart std) :: rat) / of_int (rangeEnd std - rangeStart std)
        in round (of_int (minWake std) + of_int (maxWake std - minWake std) * progress))"

subsection \<open>The derivation, first version (lines 158--366)\<close>

text \<open>
  The local variables that \<open>scheduleData\<close> updates while it walks through the day:
  the arrays \<open>events\<close> and \<open>warnings\<close> and the \<open>let\<close> variables \<open>currentTime\<close>,
  \<open>napsPlanned\<close> and \<open>nextWakeWindow\<close>.
\<close>

record walk =
  events_w :: "PlannedEvent list"
  warnings_w :: "msg list"
  currentTime :: string
  napsPlanned :: int
  nextWakeWindow :: int

text \<open>
  Lines 161--181 and 218: the wake event, the cursor at the wake time, the warning for
  a wake time before 06:00. (\<open>nextWakeWindow\<close> is declared at line 218; nothing reads
  it before.)
\<close>

definition start_A :: "string \<Rightarrow> int \<Rightarrow> walk" where
  "start_A wakeTime specificWakeWindow0 =
     (let wakeMins = timeToMinutes wakeTime
      in \<lparr>events_w =
            [\<lparr>type = Wake, startTime = wakeTime, endTime = None, title = ''Tagesbeginn'',
              description = [StartSchlafdruck], reasoning = [LichtFruehstueck],
              isPrediction = False, alertLevel = None\<rparr>],
          warnings_w = (if num_less wakeMins (Some 360) then [FruehesAufwachenCapping] else []),
          currentTime = wakeTime,
          napsPlanned = 0,
          nextWakeWindow = specificWakeWindow0\<rparr>)"

text \<open>Lines 184--211: the body of \<open>naps.forEach((nap, index) => ...)\<close>.\<close>

definition observedNap_A :: "SleepStandard \<Rightarrow> nat \<times> NapEntry \<Rightarrow> walk \<Rightarrow> walk" where
  "observedNap_A std = (\<lambda>(index, nap) st.
     let isCrapNap = num_less (duration nap) (Some 45);
         isTooLong = num_less (Some (tooLongNapMinutes std)) (duration nap);
         reasoning0 = (if isCrapNap then [KurzerNapVerkuerzen]
                       else if isTooLong then [ZuLangerNapStiehlt] else [GuteErholung]);
         alertLevel0 = (if isCrapNap then Warning else if isTooLong then Warning else Normal)
     in st\<lparr>events_w := events_w st @
              [\<lparr>type = Nap, startTime = startTime_nap nap, endTime = Some (endTime_nap nap),
                title = ''Nickerchen '' @ toString (int index + 1) @ '' (Ist)'',
                description = [DauerMin (duration nap)], reasoning = reasoning0,
                isPrediction = False, alertLevel = Some alertLevel0\<rparr>],
            currentTime := endTime_nap nap,
            napsPlanned := napsPlanned st + 1\<rparr>)"

text \<open>Lines 221--227: a short last nap shrinks the next wake window to 80 percent.\<close>

definition shortNapAdjust_A :: "NapEntry list \<Rightarrow> walk \<Rightarrow> walk" where
  "shortNapAdjust_A observed st =
     (if length observed > 0 \<and> num_less (duration (last observed)) (Some 45)
      then st\<lparr>nextWakeWindow := round (of_int (nextWakeWindow st) * (8 / 10 :: rat)),
              warnings_w := warnings_w st @ [VorherigerNapKurz]\<rparr>
      else st)"

text \<open>
  The variables of one pass of the prediction loop (lines 233--238), and the warnings
  that the pass pushes.
\<close>

record napNote =
  predictedNapStart :: string
  predictedDuration :: int
  noteTitle :: string
  noteDesc :: "msg list"
  noteReason :: "msg list"
  noteAlert :: alert
  pushed :: "msg list"

definition isToddler :: "int \<Rightarrow> bool" where
  "isToddler ageMonths = (ageMonths \<ge> 19 \<and> ageMonths \<le> 36)"

text \<open>Lines 247--259: the early nap at the physiological maximum, capped at 75 minutes.\<close>

definition cappedNap_A :: "int \<Rightarrow> int option \<Rightarrow> napNote" where
  "cappedNap_A napNumber physiologicalMaxNap =
     (let start = minutesToTimeNum physiologicalMaxNap;
          wakeUpTime = addMinutes start 75
      in \<lparr>predictedNapStart = start,
          predictedDuration = 75,
          noteTitle = ''Strategischer Mittagsschlaf (Capping)'',
          noteDesc = [StartWeckenUm start wakeUpTime],
          noteReason = [KompromisszeitWecken wakeUpTime],
          noteAlert = Warning,
          pushed = [WichtigNach75MinutenBeenden]\<rparr>)"

text \<open>Lines 261--268: the nap by the clock, at 12:30 within the wake-window bounds.\<close>

definition clockNap_A :: "SleepStandard \<Rightarrow> int \<Rightarrow> string \<Rightarrow> int option \<Rightarrow> int option \<Rightarrow> napNote" where
  "clockNap_A std napNumber currentTime0 idealClockNap physiologicalMaxNap =
     (let physiologicalMinNap = num_add (timeToMinutes currentTime0) (minWake std);
          target = num_max physiologicalMinNap idealClockNap;
          finalStart = num_min target physiologicalMaxNap;
          start = minutesToTimeNum finalStart
      in \<lparr>predictedNapStart = start,
          predictedDuration = 90,
          noteTitle = ''Vorschlag: Nap '' @ toString napNumber,
          noteDesc = [ZielzeitCa start],
          noteReason = [StandardMittagsschlafzeit],
          noteAlert = Normal,
          pushed = []\<rparr>)"

text \<open>Lines 272--278: the nap one wake window after the cursor.\<close>

definition windowNap_A :: "SleepStandard \<Rightarrow> int \<Rightarrow> string \<Rightarrow> int \<Rightarrow> napNote" where
  "windowNap_A std napNumber currentTime0 nextWakeWindow0 =
     (let dur = (if naps std > 1 \<and> napNumber = naps std then 30 else 90)
      in \<lparr>predictedNapStart = addMinutes currentTime0 nextWakeWindow0,
          predictedDuration = dur,
          noteTitle = ''Vorschlag: Nap '' @ toString napNumber,
          noteDesc = [DauerCa dur],
          noteReason = [BasiertAufWachfenster nextWakeWindow0],
          noteAlert = Normal,
          pushed = []\<rparr>)"

text \<open>Lines 230--279: which of the three it is.\<close>

definition planNap_A :: "int \<Rightarrow> SleepStandard \<Rightarrow> nat \<Rightarrow> walk \<Rightarrow> napNote" where
  "planNap_A ageMonths std i st =
     (let napNumber = napsPlanned st + int i + 1
      in if isToddler ageMonths \<and> naps std = 1 \<and> napsPlanned st = 0 then
           (let idealClockNap = timeToMinutes ''12:30'';
                physiologicalMaxNap = num_add (timeToMinutes (currentTime st)) (maxWake std)
            in if num_less physiologicalMaxNap (num_add idealClockNap (- 30))
               then cappedNap_A napNumber physiologicalMaxNap
               else clockNap_A std napNumber (currentTime st) idealClockNap physiologicalMaxNap)
         else windowNap_A std napNumber (currentTime st) (nextWakeWindow st))"

text \<open>
  Lines 281--301: the end of the planned nap, the check against the latest nap end, the
  event, and the cursor and wake window for the next pass.
\<close>

definition predictNap_A :: "int \<Rightarrow> SleepStandard \<Rightarrow> nat \<Rightarrow> walk \<Rightarrow> walk" where
  "predictNap_A ageMonths std i st =
     (let n = planNap_A ageMonths std i st;
          predictedNapEnd = addMinutes (predictedNapStart n) (predictedDuration n);
          late = (latestNapEndTime std \<noteq> [] \<and> isLater predictedNapEnd (latestNapEndTime std))
      in st\<lparr>events_w := events_w st @
               [\<lparr>type = Nap, startTime = predictedNapStart n, endTime = Some predictedNapEnd,
                 title = noteTitle n, description = noteDesc n,
                 reasoning = (if late then noteReason n @ [AchtungNapEndetSpaet predictedNapEnd]
                              else noteReason n),
                 isPrediction = True,
                 alertLevel = Some (if late then Warning else noteAlert n)\<rparr>],
             warnings_w := warnings_w st @ pushed n,
             currentTime := predictedNapEnd,
             nextWakeWindow := maxWake std\<rparr>)"

text \<open>
  Lines 159--302: the walk up to the bedtime computation. The loop
  \<open>for (let i = 0; i < remainingNaps; i++)\<close> is a fold over \<open>[0..<remainingNaps]\<close>.
\<close>

definition walk_A :: "int \<Rightarrow> string \<Rightarrow> NapEntry list \<Rightarrow> walk" where
  "walk_A ageMonths wakeTime observed =
     (let std = getStandardByMonth_A ageMonths;
          specificWakeWindow0 = calculateInterpolatedWakeWindow ageMonths std;
          st = start_A wakeTime specificWakeWindow0;
          st = fold (observedNap_A std) (enumerate 0 observed) st;
          remainingNaps = max 0 (naps std - napsPlanned st);
          st = shortNapAdjust_A observed st
      in fold (predictNap_A ageMonths std) [0..<nat remainingNaps] st)"

text \<open>
  Lines 313--318: whether the last event so far is the capped nap. \<open>events\<close> always
  holds the wake event; the test \<open>lastEvent &&\<close> is the one for an empty array.
\<close>

definition isStrategicCapping_A :: "int \<Rightarrow> PlannedEvent list \<Rightarrow> bool" where
  "isStrategicCapping_A ageMonths evs =
     (isToddler ageMonths \<and> evs \<noteq> [] \<and> type (last evs) = Nap
        \<and> includes_str (title (last evs)) ''Capping'')"

text \<open>
  Lines 305--325: the wake window before bedtime. The table has no band whose
  \<open>rangeStart\<close> and \<open>rangeEnd\<close> coincide, so \<open>p\<close> never divides by zero.
\<close>

definition finalWakeWindow_A :: "int \<Rightarrow> SleepStandard \<Rightarrow> PlannedEvent list \<Rightarrow> int" where
  "finalWakeWindow_A ageMonths std evs =
     (let w = (if mode std \<noteq> Clock
               then (let p = (of_int (ageMonths - rangeStart std) :: rat) / of_int (rangeEnd std - rangeStart std)
                     in round (of_int (bedtimeWindow std) - 30 + 60 * p))
               else bedtimeWindow std)
      in if isStrategicCapping_A ageMonths evs then 360
         else if evs \<noteq> [] \<and> type (last evs) = Nap \<and> alertLevel (last evs) = Some Warning
         then round (of_int w * (9 / 10 :: rat))
         else w)"

text \<open>Lines 327--363: the bedtime event.\<close>

definition bedtimeEvent_A :: "string \<Rightarrow> int \<Rightarrow> bool \<Rightarrow> PlannedEvent" where
  "bedtimeEvent_A currentTime0 finalWakeWindow isStrategicCapping =
     (let bedtime = addMinutes currentTime0 finalWakeWindow;
          bedtimeMins = timeToMinutes bedtime
      in if isStrategicCapping then
           \<lparr>type = Bedtime, startTime = addMinutes currentTime0 360, endTime = None,
            title = ''Ziel-Bettzeit'', description = [Uhr1815Bis1845],
            reasoning = [NachDemWecken1215], isPrediction = True, alertLevel = Some Warning\<rparr>
         else if num_less bedtimeMins (Some 1080) then
           \<lparr>type = Bedtime, startTime = bedtime, endTime = None,
            title = ''Fr'' @ [CHR 0xC3, CHR 0xBC] @ ''he Bettzeit'',
            description = [AusgleichFruehenStart],
            reasoning = [FrueheBettzeitNoetig], isPrediction = True, alertLevel = Some Warning\<rparr>
         else if num_less (Some 1260) bedtimeMins then
           \<lparr>type = Bedtime, startTime = bedtime, endTime = None,
            title = ''Sp'' @ [CHR 0xC3, CHR 0xA4] @ ''te Bettzeit'',
            description = [Nachtruhe],
            reasoning = [WachfensterSehrLang], isPrediction = True, alertLevel = Some Critical\<rparr>
         else
           \<lparr>type = Bedtime, startTime = bedtime, endTime = None,
            title = ''Bettzeit'', description = [Nachtruhe],
            reasoning = [WachzeitVorBett finalWakeWindow], isPrediction = True,
            alertLevel = Some Normal\<rparr>)"

definition scheduleData_A :: "int \<Rightarrow> string \<Rightarrow> NapEntry list \<Rightarrow> DerivationResult" where
  "scheduleData_A ageMonths wakeTime observed =
     (let std = getStandardByMonth_A ageMonths;
          st = walk_A ageMonths wakeTime observed;
          finalWakeWindow = finalWakeWindow_A ageMonths std (events_w st);
          isStrategicCapping = isStrategicCapping_A ageMonths (events_w st)
      in \<lparr>events = events_w st @ [bedtimeEvent_A (currentTime st) finalWakeWindow isStrategicCapping],
          warnings = warnings_w st,
          standard = std\<rparr>)"

subsection \<open>The derivation, second version (lines 942--1132)\<close>

text \<open>Lines 945--964: the wake event; the warning for a wake time before 06:00.\<close>

definition start_B :: "string \<Rightarrow> int \<Rightarrow> walk" where
  "start_B wakeTime specificWakeWindow0 =
     \<lparr>events_w =
        [\<lparr>type = Wake, startTime = wakeTime, endTime = None, title = ''Tagesbeginn'',
          description = [BeginnWachabschnitt], reasoning = [TageslichtAmMorgen],
          isPrediction = False, alertLevel = None\<rparr>],
      warnings_w = (if num_less (timeToMinutes wakeTime) (Some 360) then [SehrFruehesErwachen] else []),
      currentTime = wakeTime,
      napsPlanned = 0,
      nextWakeWindow = specificWakeWindow0\<rparr>"

text \<open>Lines 967--1011: the body of \<open>naps.forEach((nap, index) => ...)\<close>.\<close>

definition observedNap_B :: "SleepStandard \<Rightarrow> nat \<times> NapEntry \<Rightarrow> walk \<Rightarrow> walk" where
  "observedNap_B std = (\<lambda>(index, nap) st.
     let isCrapNap = num_less (duration nap) (Some 45);
         isTooLong = num_less (Some (tooLongNapMinutes std)) (duration nap);
         description0 = [DauerMin (duration nap)] @
            (if isCrapNap then [MarkeKurz] else if isTooLong then [MarkeSehrLang] else [MarkeErholsam]);
         reasoning0 = (if isCrapNap then [KurzerNapZyklus]
                       else if isTooLong then [SehrLangerTagschlaf] else [GuteNapLaenge]);
         alertLevel0 = (if isCrapNap then Warning else if isTooLong then Warning else Normal)
     in st\<lparr>events_w := events_w st @
              [\<lparr>type = Nap, startTime = startTime_nap nap, endTime = Some (endTime_nap nap),
                title = ''Nickerchen '' @ toString (int index + 1),
                description = description0, reasoning = reasoning0,
                isPrediction = False, alertLevel = Some alertLevel0\<rparr>],
            currentTime := endTime_nap nap,
            napsPlanned := napsPlanned st + 1,
            warnings_w := warnings_w st @
              (if isCrapNap \<and> int index < naps std - 1 then [NapWarKurz (int index + 1)] else [])\<rparr>)"

text \<open>Lines 1019--1024: a short last nap shrinks the next wake window to 85 percent.\<close>

definition shortNapAdjust_B :: "NapEntry list \<Rightarrow> walk \<Rightarrow> walk" where
  "shortNapAdjust_B observed st =
     (if length observed > 0 \<and> num_less (duration (last observed)) (Some 45)
      then st\<lparr>nextWakeWindow := round (of_int (nextWakeWindow st) * (85 / 100 :: rat))\<rparr>
      else st)"

text \<open>
  Lines 1035--1082: one pass of the prediction loop. The event it pushes has no
  \<open>alertLevel\<close>.
\<close>

definition predictNap_B :: "int \<Rightarrow> SleepStandard \<Rightarrow> int \<Rightarrow> nat \<Rightarrow> walk \<Rightarrow> walk" where
  "predictNap_B ageMonths std specificWakeWindow0 i st =
     (let napNumber = napsPlanned st + int i + 1;
          isLastNap = (napNumber = naps std);
          isClockMode = (mode std = Clock);
          predictedNapStart0 =
            (if isClockMode \<and> naps std = 1 \<and> napsPlanned st = 0 then ''12:30''
             else addMinutes (currentTime st) (nextWakeWindow st));
          predictedDuration0 = (if naps std \<ge> 3 \<and> isLastNap then 30 else 90);
          predictedNapEnd = addMinutes predictedNapStart0 predictedDuration0;
          late = (latestNapEndTime std \<noteq> []
                  \<and> num_less (timeToMinutes (latestNapEndTime std)) (timeToMinutes predictedNapEnd));
          reasoningText = (if isClockMode \<and> naps std = 1 then [ImUhrzeitModus]
                           else [Orientierungswert ageMonths (nextWakeWindow st)])
      in st\<lparr>warnings_w := warnings_w st @
               (if late then [NapEndetSehrSpaet napNumber (latestNapEndTime std)] else []),
             events_w := events_w st @
               [\<lparr>type = Nap, startTime = predictedNapStart0, endTime = Some predictedNapEnd,
                 title = ''Vorschlag: Nap '' @ toString napNumber,
                 description = [VoraussichtlicheDauer predictedDuration0],
                 reasoning = reasoningText, isPrediction = True, alertLevel = None\<rparr>],
             currentTime := predictedNapEnd,
             nextWakeWindow := min (maxWake std) (specificWakeWindow0 + 15)\<rparr>)"

text \<open>Lines 943--1083: the walk up to the bedtime computation.\<close>

definition walk_B :: "int \<Rightarrow> string \<Rightarrow> NapEntry list \<Rightarrow> walk" where
  "walk_B ageMonths wakeTime observed =
     (let std = getStandardByMonth_B ageMonths;
          specificWakeWindow0 = calculateInterpolatedWakeWindow ageMonths std;
          st = start_B wakeTime specificWakeWindow0;
          st = fold (observedNap_B std) (enumerate 0 observed) st;
          remainingNaps = max 0 (naps std - napsPlanned st);
          st = shortNapAdjust_B observed st
      in fold (predictNap_B ageMonths std specificWakeWindow0) [0..<nat remainingNaps] st)"

text \<open>Lines 1086--1090: the wake window before bedtime.\<close>

definition bedtimeWakeWindow_B :: "int \<Rightarrow> SleepStandard \<Rightarrow> int" where
  "bedtimeWakeWindow_B ageMonths std =
     (if mode std = Window \<or> mode std = Hybrid
      then (let progress = (of_int (ageMonths - rangeStart std) :: rat) / of_int (rangeEnd std - rangeStart std)
            in round (of_int (bedtimeWindow std) - 15 + 30 * progress))
      else bedtimeWindow std)"

text \<open>Lines 1093--1102: the warning for a last observed nap that ends late.\<close>

definition lastNapWarning_B :: "SleepStandard \<Rightarrow> NapEntry list \<Rightarrow> int \<Rightarrow> msg list" where
  "lastNapWarning_B std observed bedtimeWakeWindow =
     (if length observed > 0 \<and> idealBedtime std \<noteq> []
         \<and> num_less (timeToMinutes (idealBedtime std))
              (num_add (timeToMinutes (endTime_nap (last observed))) bedtimeWakeWindow)
      then [LetzterTagschlafSpaet (idealBedtime std)] else [])"

text \<open>Lines 1104--1129: the bedtime event.\<close>

definition bedtimeEvent_B :: "string \<Rightarrow> int \<Rightarrow> PlannedEvent" where
  "bedtimeEvent_B currentTime0 bedtimeWakeWindow =
     (let bedtime = addMinutes currentTime0 bedtimeWakeWindow;
          bedtimeMins = timeToMinutes bedtime
      in if num_less bedtimeMins (Some 1080) \<and> num_less (Some 360) bedtimeMins then
           \<lparr>type = Bedtime, startTime = ''18:00'', endTime = None, title = ''Bettzeit'',
            description = [FruehereBettzeitStabilisierung], reasoning = [Anker1800],
            isPrediction = True, alertLevel = Some Warning\<rparr>
         else if num_less (Some 1260) bedtimeMins then
           \<lparr>type = Bedtime, startTime = bedtime, endTime = None, title = ''Bettzeit'',
            description = [SpaeterSchlafbeginn], reasoning = [SecondWind],
            isPrediction = True, alertLevel = Some Critical\<rparr>
         else
           \<lparr>type = Bedtime, startTime = bedtime, endTime = None, title = ''Bettzeit'',
            description = [BeginnNachtruhe],
            reasoning = [BerechnungEndeLetzterSchlaf bedtimeWakeWindow],
            isPrediction = True, alertLevel = Some Normal\<rparr>)"

definition scheduleData_B :: "int \<Rightarrow> string \<Rightarrow> NapEntry list \<Rightarrow> DerivationResult_B" where
  "scheduleData_B ageMonths wakeTime observed =
     (let std = getStandardByMonth_B ageMonths;
          st = walk_B ageMonths wakeTime observed;
          bedtimeWakeWindow = bedtimeWakeWindow_B ageMonths std
      in \<lparr>events = events_w st @ [bedtimeEvent_B (currentTime st) bedtimeWakeWindow],
          warnings = warnings_w st @ lastNapWarning_B std observed bedtimeWakeWindow,
          standard = std,
          specificWakeWindow = calculateInterpolatedWakeWindow ageMonths std\<rparr>)"

subsection \<open>The nap log (lines 368--377, again at 1134--1143)\<close>

text \<open>
  \<open>Array.prototype.sort\<close> with a compare function: a stable sort; a \<open>NaN\<close> from
  the compare function counts as 0. For a compare function that orders the elements
  consistently every stable sort returns the same array, the one the insertion sort
  below returns. (For an inconsistent one, as with \<open>NaN\<close> keys, the language leaves the
  order to the implementation.)
\<close>

definition sortCompare :: "('a \<Rightarrow> 'a \<Rightarrow> int option) \<Rightarrow> 'a \<Rightarrow> 'a \<Rightarrow> int" where
  "sortCompare comparefn x y = (case comparefn x y of None \<Rightarrow> 0 | Some v \<Rightarrow> v)"

fun insertSorted :: "('a \<Rightarrow> 'a \<Rightarrow> int option) \<Rightarrow> 'a \<Rightarrow> 'a list \<Rightarrow> 'a list" where
  "insertSorted comparefn x [] = [x]"
| "insertSorted comparefn x (y # ys) =
     (if sortCompare comparefn x y \<le> 0 then x # y # ys else y # insertSorted comparefn x ys)"

definition sort_js :: "('a \<Rightarrow> 'a \<Rightarrow> int option) \<Rightarrow> 'a list \<Rightarrow> 'a list" where
  "sort_js comparefn xs = foldr (insertSorted comparefn) xs []"

text \<open>\<open>(a, b) => timeToMinutes(a.startTime) - timeToMinutes(b.startTime)\<close>\<close>

definition byStartTime :: "NapEntry \<Rightarrow> NapEntry \<Rightarrow> int option" where
  "byStartTime a b =
     (case timeToMinutes (startTime_nap a) of
        None \<Rightarrow> None
      | Some x \<Rightarrow> (case timeToMinutes (startTime_nap b) of None \<Rightarrow> None | Some y \<Rightarrow> Some (x - y)))"

text \<open>
  The state that \<open>addNap\<close> reads and sets: the nap log and the two input fields.
  \<open>now\<close> is the value of \<open>Date.now()\<close>.
\<close>

record napForm =
  naps_st :: "NapEntry list"
  napStart :: string
  napEnd :: string

definition addNap :: "int \<Rightarrow> napForm \<Rightarrow> napForm" where
  "addNap now s =
     (if napStart s = [] \<or> napEnd s = [] then s
      else
        let duration0 = getDuration (napStart s) (napEnd s)
        in s\<lparr>naps_st := sort_js byStartTime
                 (naps_st s @ [\<lparr>id_nap = toString now, startTime_nap = napStart s,
                                endTime_nap = napEnd s, duration = duration0\<rparr>]),
             napStart := [],
             napEnd := []\<rparr>)"

subsection \<open>Notions of the specification\<close>

text \<open>
  The rendering that the specification gives for \<open>minutesToTime\<close>: the minutes
  normalised into \<open>[0, 1440)\<close> by whole days, as zero-padded hours and minutes.
\<close>

definition normalizedTime :: "int \<Rightarrow> string" where
  "normalizedTime m =
     (let k = m mod 1440
      in padStart 2 CHR ''0'' (toString (k div 60)) @ '':'' @ padStart 2 CHR ''0'' (toString (k mod 60)))"

text \<open>
  The two ways to write an hour and a minute as a string: with two digits each, which
  is what a time input field delivers, and the format string \<open>f"{h}:{m}"\<close> of the
  specification, which does not pad.
\<close>

definition hhmm :: "int \<Rightarrow> int \<Rightarrow> string" where
  "hhmm h m = padStart 2 CHR ''0'' (toString h) @ '':'' @ padStart 2 CHR ''0'' (toString m)"

definition fstring_h_m :: "int \<Rightarrow> int \<Rightarrow> string" where
  "fstring_h_m h m = toString h @ '':'' @ toString m"

text \<open>The start time of a logged nap in minutes, for naps whose start time is a number.\<close>

definition startMinutes :: "NapEntry \<Rightarrow> int" where
  "startMinutes n = (case timeToMinutes (startTime_nap n) of None \<Rightarrow> 0 | Some k \<Rightarrow> k)"

text \<open>The entry that \<open>addNap\<close> appends to the log.\<close>

definition newNap :: "int \<Rightarrow> napForm \<Rightarrow> NapEntry" where
  "newNap now s =
     \<lparr>id_nap = toString now, startTime_nap = napStart s, endTime_nap = napEnd s,
      duration = getDuration (napStart s) (napEnd s)\<rparr>"

text \<open>
  What each version does for a predicted nap that ends later than the time \<open>latest\<close>.
  The first marks the event: severity warning, and the note on the risk for bedtime
  at the end of its reasoning. The second sets no severity and has a warning that
  names the nap among the warnings \<open>W\<close>.
\<close>

definition lateNapMarked_A :: "string \<Rightarrow> PlannedEvent \<Rightarrow> bool" where
  "lateNapMarked_A latest e =
     (type e = Nap \<and> isPrediction e \<longrightarrow>
        (\<forall>t. endTime e = Some t \<and> isLater t latest \<longrightarrow>
           alertLevel e = Some Warning \<and> reasoning e \<noteq> []
           \<and> last (reasoning e) = AchtungNapEndetSpaet t))"

definition lateNapWarned_B :: "string \<Rightarrow> msg set \<Rightarrow> PlannedEvent \<Rightarrow> bool" where
  "lateNapWarned_B latest W e =
     (type e = Nap \<and> isPrediction e \<longrightarrow>
        alertLevel e = None \<and>
        (\<forall>t. endTime e = Some t \<and> isLater t latest \<longrightarrow>
           (\<exists>n. title e = ''Vorschlag: Nap '' @ toString n \<and> NapEndetSehrSpaet n latest \<in> W)))"

definition warned_B :: "string \<Rightarrow> walk \<Rightarrow> bool" where
  "warned_B l st = (\<forall>e\<in>set (events_w st). lateNapWarned_B l (set (warnings_w st)) e)"

text \<open>The schedule that a result shows: kind, start, end and severity of each event.\<close>

definition timeline ::
  "'a DerivationResult_scheme \<Rightarrow> (event_type \<times> string \<times> string option \<times> alert option) list" where
  "timeline r = map (\<lambda>e. (type e, startTime e, endTime e, alertLevel e)) (events r)"

section \<open>Verification\<close>

subsection \<open>Arithmetic of minutes, hours and days\<close>

lemma mod_1440: "(m::int) mod 1440 = 60 * (m div 60 mod 24) + m mod 60"
  using zmod_zmult2_eq [of 24 m 60] by simp

lemma mod_1440_div_60: "((m::int) mod 1440) div 60 = m div 60 mod 24"
  by (simp add: mod_1440)

lemma mod_1440_mod_60: "((m::int) mod 1440) mod 60 = m mod 60"
  by (simp add: mod_1440)

lemma div_60_bounds: "0 \<le> (m::int) \<Longrightarrow> m < 2880 \<Longrightarrow> 0 \<le> m div 60 \<and> m div 60 < 48"
  using mult_div_mod_eq [of 60 m] pos_mod_sign [of 60 m] by linarith

lemma mod_24_once: "0 \<le> (h::int) \<Longrightarrow> h < 48 \<Longrightarrow> h mod 24 = (if h \<ge> 24 then h - 24 else h)"
proof (cases "24 \<le> h")
  case True
  assume "h < 48"
  have "h mod 24 = (h - 24) mod 24" by (simp only: minus_mod_self2)
  also have "\<dots> = h - 24"
    using True \<open>h < 48\<close> by (simp add: mod_pos_pos_trivial del: minus_mod_self2)
  finally show ?thesis using True by simp
next
  case False
  assume "0 \<le> h"
  then show ?thesis using False by simp
qed

lemma smod_nonneg: "0 \<le> (k::int) \<Longrightarrow> k smod 60 = k mod 60"
  by (simp add: signed_modulo_int_def sgn_if)

subsection \<open>minutesToTime\<close>

text \<open>
  Claim C3, as stated: for every integer \<open>m\<close>, \<open>minutesToTime m\<close> is the zero-padded
  rendering of \<open>m\<close> normalised into \<open>[0, 1440)\<close> by whole days. It fails two days after
  midnight: \<open>minutesToTime\<close> takes off 24 hours once and prints hour 24.
\<close>

theorem C3_counterexample:
  "minutesToTime 2880 = ''24:00'' \<and> normalizedTime 2880 = ''00:00''"
  by code_simp

text \<open>
  Claim C3, amended: for every integer \<open>m\<close> from 0 up to, not including, 2880 (two
  days), \<open>minutesToTime m\<close> is the zero-padded rendering of \<open>m\<close> normalised into
  \<open>[0, 1440)\<close>; at most one day is taken off.
\<close>

theorem C3_minutesToTime_within_two_days:
  assumes "0 \<le> m" "m < 2880"
  shows "minutesToTime m = normalizedTime m"
proof -
  have b: "0 \<le> m div 60" "m div 60 < 48" using div_60_bounds [OF assms] by simp_all
  have "(if 24 \<le> m div 60 then m div 60 - 24 else m div 60) = m div 60 mod 24"
    using mod_24_once [OF b] by simp
  moreover have "\<not> (if 24 \<le> m div 60 then m div 60 - 24 else m div 60) < 0"
    using b by simp
  ultimately show ?thesis using assms(1)
    by (simp add: minutesToTime_def normalizedTime_def Let_def smod_nonneg
          mod_1440_div_60 mod_1440_mod_60 del: mod_1440)
qed

theorem C3_witness:
  "(0::int) \<le> 1500 \<and> (1500::int) < 2880 \<and> minutesToTime 1500 = ''01:00''"
  using C3_minutesToTime_within_two_days [of 1500]
  by (simp add: normalizedTime_def padStart_def toString_def digitChar_def)

text \<open>
  Below zero the minutes field keeps the sign of the remainder: half an hour before
  midnight prints as follows.
\<close>

lemma minutesToTime_negative: "minutesToTime (- 30) = ''23:-30''"
  by code_simp

subsection \<open>Interpolated wake window\<close>

text \<open>
  Claim C7: for a band whose \<open>minWake\<close> is at most its \<open>maxWake\<close>,
  \<open>calculateInterpolatedWakeWindow\<close> is monotonically non-decreasing in the age, is
  \<open>minWake\<close> at the band's lower bound and \<open>maxWake\<close> at its upper bound; when the two
  bounds coincide it is \<open>maxWake\<close>.
\<close>

theorem C7_interpolated_wake_window:
  assumes "minWake std \<le> maxWake std"
  shows "(rangeStart std < rangeEnd std \<longrightarrow>
           (\<forall>a b. a \<le> b \<longrightarrow>
              calculateInterpolatedWakeWindow a std \<le> calculateInterpolatedWakeWindow b std)
           \<and> calculateInterpolatedWakeWindow (rangeStart std) std = minWake std
           \<and> calculateInterpolatedWakeWindow (rangeEnd std) std = maxWake std)
       \<and> (rangeStart std = rangeEnd std \<longrightarrow>
           (\<forall>a. calculateInterpolatedWakeWindow a std = maxWake std))"
proof (intro conjI impI allI)
  fix a b :: int
  assume lt: "rangeStart std < rangeEnd std" and ab: "a \<le> b"
  let ?d = "of_int (rangeEnd std - rangeStart std) :: rat"
  let ?w = "of_int (maxWake std - minWake std) :: rat"
  have dpos: "0 < ?d" using lt by simp
  have "(of_int (a - rangeStart std) :: rat) / ?d \<le> of_int (b - rangeStart std) / ?d"
    using ab dpos by (simp add: divide_right_mono)
  moreover have "0 \<le> ?w" using assms by simp
  ultimately have "?w * (of_int (a - rangeStart std) / ?d) \<le> ?w * (of_int (b - rangeStart std) / ?d)"
    by (rule mult_left_mono)
  then have "of_int (minWake std) + ?w * (of_int (a - rangeStart std) / ?d)
      \<le> of_int (minWake std) + ?w * (of_int (b - rangeStart std) / ?d)"
    by (rule add_left_mono)
  then have "round (of_int (minWake std) + ?w * (of_int (a - rangeStart std) / ?d))
      \<le> round (of_int (minWake std) + ?w * (of_int (b - rangeStart std) / ?d))"
    by (rule round_mono)
  then show "calculateInterpolatedWakeWindow a std \<le> calculateInterpolatedWakeWindow b std"
    using lt by (simp only: calculateInterpolatedWakeWindow_def Let_def) simp
next
  assume lt: "rangeStart std < rangeEnd std"
  then show "calculateInterpolatedWakeWindow (rangeStart std) std = minWake std"
    by (simp add: calculateInterpolatedWakeWindow_def Let_def)
next
  assume lt: "rangeStart std < rangeEnd std"
  let ?d = "of_int (rangeEnd std - rangeStart std) :: rat"
  have nz: "?d \<noteq> 0" using lt by simp
  have one: "?d / ?d = 1"
    using nz by (rule divide_self)
  have "of_int (minWake std) + (of_int (maxWake std - minWake std) :: rat) * (?d / ?d)
          = (of_int (maxWake std) :: rat)"
    unfolding one by simp
  then have "round (of_int (minWake std) + (of_int (maxWake std - minWake std) :: rat) * (?d / ?d))
          = maxWake std"
    by (simp only: round_of_int)
  then show "calculateInterpolatedWakeWindow (rangeEnd std) std = maxWake std"
    using lt by (simp only: calculateInterpolatedWakeWindow_def Let_def) simp
next
  fix a assume "rangeStart std = rangeEnd std"
  then show "calculateInterpolatedWakeWindow a std = maxWake std"
    by (simp add: calculateInterpolatedWakeWindow_def)
qed

theorem C7_witness:
  "minWake (SLEEP_STANDARDS_A G_19_36) \<le> maxWake (SLEEP_STANDARDS_A G_19_36)
   \<and> rangeStart (SLEEP_STANDARDS_A G_19_36) < rangeEnd (SLEEP_STANDARDS_A G_19_36)
   \<and> (20::int) \<le> 30
   \<and> calculateInterpolatedWakeWindow 20 (SLEEP_STANDARDS_A G_19_36)
        \<le> calculateInterpolatedWakeWindow 30 (SLEEP_STANDARDS_A G_19_36)
   \<and> calculateInterpolatedWakeWindow 19 (SLEEP_STANDARDS_A G_19_36) = 300
   \<and> calculateInterpolatedWakeWindow 36 (SLEEP_STANDARDS_A G_19_36) = 360
   \<and> rangeStart ((SLEEP_STANDARDS_A G_19_36)\<lparr>rangeEnd := 19\<rparr>)
        = rangeEnd ((SLEEP_STANDARDS_A G_19_36)\<lparr>rangeEnd := 19\<rparr>)
   \<and> calculateInterpolatedWakeWindow 24 ((SLEEP_STANDARDS_A G_19_36)\<lparr>rangeEnd := 19\<rparr>) = 360"
  using C7_interpolated_wake_window [of "SLEEP_STANDARDS_A G_19_36"]
    C7_interpolated_wake_window [of "(SLEEP_STANDARDS_A G_19_36)\<lparr>rangeEnd := 19\<rparr>"]
  by simp

text \<open>Every band of both tables meets the conditions of the claim.\<close>

lemma bands_well_formed:
  "minWake (SLEEP_STANDARDS_A k) \<le> maxWake (SLEEP_STANDARDS_A k)
   \<and> rangeStart (SLEEP_STANDARDS_A k) < rangeEnd (SLEEP_STANDARDS_A k)
   \<and> minWake (SLEEP_STANDARDS_B k) \<le> maxWake (SLEEP_STANDARDS_B k)
   \<and> rangeStart (SLEEP_STANDARDS_B k) < rangeEnd (SLEEP_STANDARDS_B k)"
  by (cases k) simp_all

subsection \<open>Scenario: two years old, awake at 05:00, no nap yet\<close>

text \<open>
  Claim C1, as stated, has the bedtime land at 17:15. The bedtime event of the first
  version starts at 18:15.
\<close>

theorem C1_counterexample:
  "type (last (events (scheduleData_A 24 ''05:00'' []))) = Bedtime
   \<and> startTime (last (events (scheduleData_A 24 ''05:00'' []))) \<noteq> ''17:15''"
  by code_simp

text \<open>
  Claim C1, amended: for age 24 months, wake time 05:00 and no observed nap, the first
  version emits a wake event at 05:00; one predicted nap by the capped early-nap
  strategy, starting at 11:00 (05:00 plus the band's maximum wake window of 360
  minutes), lasting 75 minutes (to 12:15), with severity warning and warning strings
  that mention capping; and a bedtime event whose wake window is forced to the band's
  maximum of 360 minutes, landing at 18:15 (12:15 plus 360 minutes).
\<close>

theorem C1_scenario_early_wake:
  "scheduleData_A 24 ''05:00'' [] =
     \<lparr>events =
        [\<lparr>type = Wake, startTime = ''05:00'', endTime = None,
          title = ''Tagesbeginn'', description = [StartSchlafdruck],
          reasoning = [LichtFruehstueck], isPrediction = False, alertLevel = None\<rparr>,
         \<lparr>type = Nap, startTime = ''11:00'', endTime = Some ''12:15'',
          title = ''Strategischer Mittagsschlaf (Capping)'',
          description = [StartWeckenUm ''11:00'' ''12:15''],
          reasoning = [KompromisszeitWecken ''12:15''], isPrediction = True,
          alertLevel = Some Warning\<rparr>,
         \<lparr>type = Bedtime, startTime = ''18:15'', endTime = None,
          title = ''Ziel-Bettzeit'', description = [Uhr1815Bis1845],
          reasoning = [NachDemWecken1215], isPrediction = True,
          alertLevel = Some Warning\<rparr>],
      warnings = [FruehesAufwachenCapping, WichtigNach75MinutenBeenden],
      standard = SLEEP_STANDARDS_A G_19_36\<rparr>
   \<and> maxWake (SLEEP_STANDARDS_A G_19_36) = 360
   \<and> addMinutes ''05:00'' 360 = ''11:00''
   \<and> planNap_A 24 (SLEEP_STANDARDS_A G_19_36) 0 (start_A ''05:00'' 318)
        = cappedNap_A 1 (Some 660)
   \<and> predictedDuration (cappedNap_A 1 (Some 660)) = 75
   \<and> addMinutes ''11:00'' 75 = ''12:15''
   \<and> finalWakeWindow_A 24 (SLEEP_STANDARDS_A G_19_36) (events_w (walk_A 24 ''05:00'' [])) = 360
   \<and> addMinutes ''12:15'' 360 = ''18:15''"
  by code_simp

subsection \<open>The last band\<close>

lemma type_bedtimeEvent_A: "type (bedtimeEvent_A c w k) = Bedtime"
  by (simp add: bedtimeEvent_A_def Let_def)

lemma type_bedtimeEvent_B: "type (bedtimeEvent_B c w) = Bedtime"
  by (simp add: bedtimeEvent_B_def Let_def)

lemma ageGroup_36_plus: "37 \<le> ageMonths \<Longrightarrow> ageGroup ageMonths = G_36_plus"
  by (simp add: ageGroup_def)

text \<open>
  Claim C10: for every age of 37 months or more (the last band, whose nap count is 0)
  and an empty nap log, both versions return exactly two events, the wake event at the
  wake time and then the bedtime event; no nap is predicted.
\<close>

theorem C10_last_band_no_naps:
  assumes "37 \<le> ageMonths"
  shows "map type (events (scheduleData_A ageMonths wakeTime [])) = [Wake, Bedtime]
       \<and> map type (events (scheduleData_B ageMonths wakeTime [])) = [Wake, Bedtime]
       \<and> startTime (hd (events (scheduleData_A ageMonths wakeTime []))) = wakeTime
       \<and> startTime (hd (events (scheduleData_B ageMonths wakeTime []))) = wakeTime
       \<and> naps (standard (scheduleData_A ageMonths wakeTime [])) = 0
       \<and> naps (standard (scheduleData_B ageMonths wakeTime [])) = 0"
  using assms
  by (simp add: scheduleData_A_def scheduleData_B_def walk_A_def walk_B_def Let_def
        getStandardByMonth_A_def getStandardByMonth_B_def ageGroup_36_plus
        start_A_def start_B_def shortNapAdjust_A_def shortNapAdjust_B_def enumerate_eq_zip
        type_bedtimeEvent_A type_bedtimeEvent_B)

theorem C10_witness:
  "(37::int) \<le> 40
   \<and> map type (events (scheduleData_A 40 ''07:00'' [])) = [Wake, Bedtime]
   \<and> map type (events (scheduleData_B 40 ''07:00'' [])) = [Wake, Bedtime]"
  using C10_last_band_no_naps [of 40 "''07:00''"] by simp

subsection \<open>Reading a time back\<close>

lemma fields_list:
  "list_all (\<lambda>k. Number (toString k) = Some k
        \<and> Number (padStart 2 CHR ''0'' (toString k)) = Some k
        \<and> CHR '':'' \<notin> set (toString k)
        \<and> CHR '':'' \<notin> set (padStart 2 CHR ''0'' (toString k))) [0..59]"
  by code_simp

lemma fields:
  assumes "0 \<le> k" "k < 60"
  shows "Number (toString k) = Some k"
    and "Number (padStart 2 CHR ''0'' (toString k)) = Some k"
    and "CHR '':'' \<notin> set (toString k)"
    and "CHR '':'' \<notin> set (padStart 2 CHR ''0'' (toString k))"
proof -
  have "k \<in> set [0..59]" using assms by simp
  then have "Number (toString k) = Some k
        \<and> Number (padStart 2 CHR ''0'' (toString k)) = Some k
        \<and> CHR '':'' \<notin> set (toString k)
        \<and> CHR '':'' \<notin> set (padStart 2 CHR ''0'' (toString k))"
    using fields_list unfolding list_all_iff by blast
  then show "Number (toString k) = Some k"
    and "Number (padStart 2 CHR ''0'' (toString k)) = Some k"
    and "CHR '':'' \<notin> set (toString k)"
    and "CHR '':'' \<notin> set (padStart 2 CHR ''0'' (toString k))"
    by simp_all
qed

lemma split_colon_no_colon: "CHR '':'' \<notin> set b \<Longrightarrow> split_colon b = [b]"
  by (induction b) auto

lemma split_colon_two:
  "CHR '':'' \<notin> set a \<Longrightarrow> CHR '':'' \<notin> set b \<Longrightarrow> split_colon (a @ CHR '':'' # b) = [a, b]"
  by (induction a) (auto simp: split_colon_no_colon)

lemma timeToMinutes_two_fields:
  assumes "Number a = Some h" "Number b = Some m" "CHR '':'' \<notin> set a" "CHR '':'' \<notin> set b"
  shows "timeToMinutes (a @ '':'' @ b) = Some (h * 60 + m)"
  using assms by (simp add: timeToMinutes_def split_colon_two)

lemma minutesToTime_hhmm:
  assumes "0 \<le> h" "h < 24" "0 \<le> m" "m < 60"
  shows "minutesToTime (h * 60 + m) = hhmm h m"
proof -
  have d: "(h * 60 + m) div 60 = h" using assms by simp
  have r: "(h * 60 + m) mod 60 = m" using assms by simp
  have "0 \<le> h * 60 + m" using assms by simp
  then have "(h * 60 + m) smod 60 = m" using r by (simp add: smod_nonneg)
  then show ?thesis using assms d
    by (simp add: minutesToTime_def hhmm_def Let_def)
qed

lemma timeToMinutes_hhmm:
  assumes "0 \<le> h" "h < 24" "0 \<le> m" "m < 60"
  shows "timeToMinutes (hhmm h m) = Some (h * 60 + m)"
  unfolding hhmm_def using assms
  by (intro timeToMinutes_two_fields fields) simp_all

lemma timeToMinutes_fstring:
  assumes "0 \<le> h" "h < 24" "0 \<le> m" "m < 60"
  shows "timeToMinutes (fstring_h_m h m) = Some (h * 60 + m)"
  unfolding fstring_h_m_def using assms
  by (intro timeToMinutes_two_fields fields) simp_all

lemma hhmm_not_blank: "hhmm h m \<noteq> []"
  by (simp add: hhmm_def)

text \<open>
  Claim C6, as stated, takes the string \<open>s\<close> from \<open>f"{h}:{m}"\<close>, which does not pad. For
  5 hours 3 minutes that string is \<open>5:3\<close>; it reads as 303 minutes, and 303 minutes
  print as \<open>05:03\<close>.
\<close>

theorem C6_counterexample:
  "fstring_h_m 5 3 = ''5:3'' \<and> timeToMinutes ''5:3'' = Some 303
   \<and> minutesToTime 303 = ''05:03'' \<and> ''05:03'' \<noteq> ''5:3''"
  by code_simp

text \<open>
  Claim C6, amended: for all integers \<open>h\<close>, \<open>m\<close> with \<open>0 \<le> h < 24\<close> and \<open>0 \<le> m < 60\<close>, the
  zero-padded string \<open>HH:MM\<close> of \<open>(h, m)\<close> reads as \<open>60 h + m\<close> minutes and these print as
  the same string (the round trip); the unpadded \<open>f"{h}:{m}"\<close> reads as the same
  minutes, so it comes back zero-padded.
\<close>

theorem C6_round_trip:
  assumes "0 \<le> h" "h < 24" "0 \<le> m" "m < 60"
  shows "timeToMinutes (hhmm h m) = Some (h * 60 + m)
       \<and> minutesToTime (h * 60 + m) = hhmm h m
       \<and> minutesToTimeNum (timeToMinutes (hhmm h m)) = hhmm h m
       \<and> minutesToTimeNum (timeToMinutes (fstring_h_m h m)) = hhmm h m"
  using assms
  by (simp add: timeToMinutes_hhmm timeToMinutes_fstring minutesToTimeNum_def minutesToTime_hhmm)

theorem C6_witness:
  "(0::int) \<le> 5 \<and> (5::int) < 24 \<and> (0::int) \<le> 3 \<and> (3::int) < 60
   \<and> timeToMinutes ''05:03'' = Some 303
   \<and> minutesToTime 303 = ''05:03''
   \<and> minutesToTimeNum (timeToMinutes ''05:03'') = ''05:03''
   \<and> minutesToTimeNum (timeToMinutes ''5:3'') = ''05:03''"
  using C6_round_trip [of 5 3]
  by (simp add: hhmm_def fstring_h_m_def padStart_def toString_def digitChar_def
        minutesToTimeNum_def)

subsection \<open>The nap log\<close>

lemma set_insertSorted: "set (insertSorted c x ys) = insert x (set ys)"
  by (induction ys) auto

lemma set_sort_js: "set (sort_js c xs) = set xs"
  unfolding sort_js_def by (induction xs) (simp_all add: set_insertSorted)

lemma length_insertSorted: "length (insertSorted c x ys) = Suc (length ys)"
  by (induction ys) auto

lemma length_sort_js: "length (sort_js c xs) = length xs"
  unfolding sort_js_def by (induction xs) (simp_all add: length_insertSorted)

lemma sortCompare_byStartTime:
  assumes "timeToMinutes (startTime_nap a) \<noteq> None" "timeToMinutes (startTime_nap b) \<noteq> None"
  shows "(sortCompare byStartTime a b \<le> 0) = (startMinutes a \<le> startMinutes b)"
  using assms by (auto simp: sortCompare_def byStartTime_def startMinutes_def)

lemma sorted_insertSorted:
  assumes "timeToMinutes (startTime_nap x) \<noteq> None"
    and "\<forall>n\<in>set ys. timeToMinutes (startTime_nap n) \<noteq> None"
    and "sorted (map startMinutes ys)"
  shows "sorted (map startMinutes (insertSorted byStartTime x ys))"
  using assms
proof (induction ys)
  case Nil
  then show ?case by simp
next
  case (Cons y ys)
  have c: "(sortCompare byStartTime x y \<le> 0) = (startMinutes x \<le> startMinutes y)"
    using Cons.prems by (simp add: sortCompare_byStartTime)
  show ?case
  proof (cases "startMinutes x \<le> startMinutes y")
    case True
    then show ?thesis using Cons.prems c by auto
  next
    case False
    have "sorted (map startMinutes (insertSorted byStartTime x ys))"
      using Cons by simp
    then show ?thesis using False Cons.prems c
      by (auto simp: set_insertSorted)
  qed
qed

lemma sorted_sort_js:
  "\<forall>n\<in>set xs. timeToMinutes (startTime_nap n) \<noteq> None
     \<Longrightarrow> sorted (map startMinutes (sort_js byStartTime xs))"
  unfolding sort_js_def
  by (induction xs) (simp_all add: sorted_insertSorted set_sort_js [unfolded sort_js_def])

text \<open>
  Claim C8: \<open>addNap\<close> with a blank start or a blank end time leaves the state as it is.
  With both times non-blank the new log holds the new entry and the entries it held
  (one entry more), and the two input fields are cleared; when the start times in the
  log and the new one are numbers, the new log is sorted by start time ascending,
  whatever the order of the log was before.
\<close>

theorem C8_addNap:
  "(napStart s = [] \<or> napEnd s = [] \<longrightarrow> addNap now s = s)
   \<and> (napStart s \<noteq> [] \<and> napEnd s \<noteq> [] \<longrightarrow>
        set (naps_st (addNap now s)) = insert (newNap now s) (set (naps_st s))
        \<and> length (naps_st (addNap now s)) = length (naps_st s) + 1
        \<and> napStart (addNap now s) = [] \<and> napEnd (addNap now s) = [])
   \<and> (napStart s \<noteq> [] \<and> napEnd s \<noteq> [] \<and> timeToMinutes (napStart s) \<noteq> None
        \<and> (\<forall>n\<in>set (naps_st s). timeToMinutes (startTime_nap n) \<noteq> None) \<longrightarrow>
        sorted (map startMinutes (naps_st (addNap now s))))"
proof (intro conjI impI)
  assume "napStart s = [] \<or> napEnd s = []"
  then show "addNap now s = s" by (auto simp: addNap_def)
next
  assume a: "napStart s \<noteq> [] \<and> napEnd s \<noteq> []"
  then show "set (naps_st (addNap now s)) = insert (newNap now s) (set (naps_st s))"
    by (simp add: addNap_def Let_def set_sort_js newNap_def)
  show "length (naps_st (addNap now s)) = length (naps_st s) + 1"
    using a by (simp add: addNap_def Let_def length_sort_js)
  show "napStart (addNap now s) = []" using a by (simp add: addNap_def Let_def)
  show "napEnd (addNap now s) = []" using a by (simp add: addNap_def Let_def)
next
  assume a: "napStart s \<noteq> [] \<and> napEnd s \<noteq> [] \<and> timeToMinutes (napStart s) \<noteq> None
        \<and> (\<forall>n\<in>set (naps_st s). timeToMinutes (startTime_nap n) \<noteq> None)"
  then have "\<forall>n\<in>set (naps_st s @ [newNap now s]). timeToMinutes (startTime_nap n) \<noteq> None"
    by (auto simp: newNap_def)
  then have "sorted (map startMinutes (sort_js byStartTime (naps_st s @ [newNap now s])))"
    by (rule sorted_sort_js)
  then show "sorted (map startMinutes (naps_st (addNap now s)))"
    using a by (simp add: addNap_def Let_def newNap_def)
qed

theorem C8_witness:
  "napStart \<lparr>naps_st = [\<lparr>id_nap = ''1'', startTime_nap = ''10:00'', endTime_nap = ''10:20'', duration = Some 20\<rparr>],
             napStart = ''09:00'', napEnd = ''09:30''\<rparr> \<noteq> []
   \<and> timeToMinutes ''09:00'' \<noteq> None \<and> timeToMinutes ''10:00'' \<noteq> None
   \<and> sorted (map startMinutes (naps_st (addNap 17
        \<lparr>naps_st = [\<lparr>id_nap = ''1'', startTime_nap = ''10:00'', endTime_nap = ''10:20'', duration = Some 20\<rparr>],
         napStart = ''09:00'', napEnd = ''09:30''\<rparr>)))
   \<and> naps_st (addNap 17
        \<lparr>naps_st = [\<lparr>id_nap = ''1'', startTime_nap = ''10:00'', endTime_nap = ''10:20'', duration = Some 20\<rparr>],
         napStart = ''09:00'', napEnd = ''09:30''\<rparr>)
      = [\<lparr>id_nap = ''17'', startTime_nap = ''09:00'', endTime_nap = ''09:30'', duration = Some 30\<rparr>,
         \<lparr>id_nap = ''1'', startTime_nap = ''10:00'', endTime_nap = ''10:20'', duration = Some 20\<rparr>]
   \<and> addNap 17 \<lparr>naps_st = [], napStart = [], napEnd = ''09:30''\<rparr>
      = \<lparr>naps_st = [], napStart = [], napEnd = ''09:30''\<rparr>"
proof -
  let ?s = "\<lparr>naps_st = [\<lparr>id_nap = ''1'', startTime_nap = ''10:00'', endTime_nap = ''10:20'', duration = Some 20\<rparr>],
             napStart = ''09:00'', napEnd = ''09:30''\<rparr>"
  have h: "napStart ?s \<noteq> [] \<and> napEnd ?s \<noteq> [] \<and> timeToMinutes (napStart ?s) \<noteq> None
        \<and> (\<forall>n\<in>set (naps_st ?s). timeToMinutes (startTime_nap n) \<noteq> None)"
    by code_simp
  have t: "timeToMinutes ''09:00'' \<noteq> None \<and> timeToMinutes ''10:00'' \<noteq> None"
    by code_simp
  have v: "naps_st (addNap 17 ?s)
      = [\<lparr>id_nap = ''17'', startTime_nap = ''09:00'', endTime_nap = ''09:30'', duration = Some 30\<rparr>,
         \<lparr>id_nap = ''1'', startTime_nap = ''10:00'', endTime_nap = ''10:20'', duration = Some 20\<rparr>]"
    by code_simp
  have srt: "sorted (map startMinutes (naps_st (addNap 17 ?s)))"
    using C8_addNap [of ?s 17] h by blast
  have blank: "addNap 17 \<lparr>naps_st = [], napStart = [], napEnd = ''09:30''\<rparr>
      = \<lparr>naps_st = [], napStart = [], napEnd = ''09:30''\<rparr>"
    using C8_addNap [of "\<lparr>naps_st = [], napStart = [], napEnd = ''09:30''\<rparr>" 17] by simp
  show ?thesis using h t v srt blank by simp
qed

text \<open>
  Claim C9: the entry that \<open>addNap\<close> creates from a start time \<open>HH:MM\<close> and an end time
  \<open>HH:MM\<close> (hours below 24, minutes below 60) has a duration \<open>d\<close> with \<open>0 \<le> d < 1440\<close>:
  the end minus the start in minutes, plus 1440 when that difference is negative.
\<close>

theorem C9_duration_range:
  assumes "0 \<le> h" "h < 24" "0 \<le> m" "m < 60" "0 \<le> h'" "h' < 24" "0 \<le> m'" "m' < 60"
  shows "\<exists>d. newNap now \<lparr>naps_st = logged, napStart = hhmm h m, napEnd = hhmm h' m'\<rparr>
              = \<lparr>id_nap = toString now, startTime_nap = hhmm h m, endTime_nap = hhmm h' m',
                 duration = Some d\<rparr>
           \<and> newNap now \<lparr>naps_st = logged, napStart = hhmm h m, napEnd = hhmm h' m'\<rparr>
               \<in> set (naps_st (addNap now \<lparr>naps_st = logged, napStart = hhmm h m, napEnd = hhmm h' m'\<rparr>))
           \<and> 0 \<le> d \<and> d < 1440
           \<and> d = (if (h' * 60 + m') - (h * 60 + m) < 0 then (h' * 60 + m') - (h * 60 + m) + 1440
                   else (h' * 60 + m') - (h * 60 + m))"
proof -
  let ?d = "(if (h' * 60 + m') - (h * 60 + m) < 0 then (h' * 60 + m') - (h * 60 + m) + 1440
                   else (h' * 60 + m') - (h * 60 + m))"
  have g: "getDuration (hhmm h m) (hhmm h' m') = Some ?d"
    using assms by (simp add: getDuration_def timeToMinutes_hhmm Let_def)
  have b: "0 \<le> ?d \<and> ?d < 1440" using assms by auto
  have "newNap now \<lparr>naps_st = logged, napStart = hhmm h m, napEnd = hhmm h' m'\<rparr>
               \<in> set (naps_st (addNap now \<lparr>naps_st = logged, napStart = hhmm h m, napEnd = hhmm h' m'\<rparr>))"
    by (simp add: addNap_def Let_def set_sort_js newNap_def hhmm_not_blank)
  then show ?thesis using g b by (intro exI [of _ ?d]) (simp add: newNap_def)
qed

theorem C9_witness:
  "(0::int) \<le> 23 \<and> (23::int) < 24 \<and> (0::int) \<le> 30 \<and> (30::int) < 60
   \<and> (0::int) \<le> 0 \<and> (0::int) < 24 \<and> (0::int) \<le> 15 \<and> (15::int) < 60
   \<and> (\<exists>d. newNap 17 \<lparr>naps_st = [], napStart = ''23:30'', napEnd = ''00:15''\<rparr>
              = \<lparr>id_nap = ''17'', startTime_nap = ''23:30'', endTime_nap = ''00:15'',
                 duration = Some d\<rparr>
         \<and> 0 \<le> d \<and> d < 1440 \<and> d = 45)"
  using C9_duration_range [of 23 30 0 15 17 "[]"]
  by (simp add: hhmm_def padStart_def toString_def digitChar_def)

subsection \<open>A predicted nap that ends late\<close>

lemma fold_invariant:
  "(\<And>x s. I s \<Longrightarrow> I (f x s)) \<Longrightarrow> I s \<Longrightarrow> I (fold f xs s)"
  by (induction xs arbitrary: s) auto

lemma latest_A_not_blank: "latestNapEndTime (getStandardByMonth_A a) \<noteq> []"
  by (cases "ageGroup a") (simp_all add: getStandardByMonth_A_def)

lemma latest_B_not_blank: "latestNapEndTime (getStandardByMonth_B a) \<noteq> []"
  by (cases "ageGroup a") (simp_all add: getStandardByMonth_B_def)

lemma start_A_marked: "\<forall>e\<in>set (events_w (start_A w s)). lateNapMarked_A l e"
  by (simp add: start_A_def Let_def lateNapMarked_A_def)

lemma ball_snoc: "\<forall>e\<in>set xs. P e \<Longrightarrow> ys = xs @ [x] \<Longrightarrow> P x \<Longrightarrow> \<forall>e\<in>set ys. P e"
  by auto

lemma observedNap_A_marked:
  assumes "\<forall>e\<in>set (events_w st). lateNapMarked_A l e"
  shows "\<forall>e\<in>set (events_w (observedNap_A std x st)). lateNapMarked_A l e"
proof -
  obtain index nap where x: "x = (index, nap)" by (cases x)
  have "\<exists>e. events_w (observedNap_A std x st) = events_w st @ [e] \<and> \<not> isPrediction e"
    by (simp add: x observedNap_A_def Let_def)
  then obtain e where e: "events_w (observedNap_A std x st) = events_w st @ [e]" "\<not> isPrediction e"
    by blast
  have "lateNapMarked_A l e" using e(2) by (simp add: lateNapMarked_A_def)
  with assms e(1) show ?thesis by (rule ball_snoc)
qed

lemma shortNapAdjust_A_events: "events_w (shortNapAdjust_A obs st) = events_w st"
  by (simp add: shortNapAdjust_A_def)

lemma predictNap_A_marked:
  assumes "latestNapEndTime std \<noteq> []" "\<forall>e\<in>set (events_w st). lateNapMarked_A (latestNapEndTime std) e"
  shows "\<forall>e\<in>set (events_w (predictNap_A a std i st)). lateNapMarked_A (latestNapEndTime std) e"
proof -
  have "\<exists>e. events_w (predictNap_A a std i st) = events_w st @ [e]
          \<and> (\<forall>t. endTime e = Some t \<and> isLater t (latestNapEndTime std) \<longrightarrow>
                 alertLevel e = Some Warning \<and> reasoning e \<noteq> []
                 \<and> last (reasoning e) = AchtungNapEndetSpaet t)"
    using assms(1) by (simp add: predictNap_A_def Let_def)
  then obtain e where e: "events_w (predictNap_A a std i st) = events_w st @ [e]"
      "\<forall>t. endTime e = Some t \<and> isLater t (latestNapEndTime std) \<longrightarrow>
                 alertLevel e = Some Warning \<and> reasoning e \<noteq> []
                 \<and> last (reasoning e) = AchtungNapEndetSpaet t"
    by blast
  have "lateNapMarked_A (latestNapEndTime std) e" using e(2) unfolding lateNapMarked_A_def by blast
  with assms(2) e(1) show ?thesis by (rule ball_snoc)
qed

lemma walk_A_marked:
  "\<forall>e\<in>set (events_w (walk_A a w obs)). lateNapMarked_A (latestNapEndTime (getStandardByMonth_A a)) e"
  unfolding walk_A_def Let_def
  apply (rule fold_invariant [where I = "\<lambda>st. \<forall>e\<in>set (events_w st). lateNapMarked_A (latestNapEndTime (getStandardByMonth_A a)) e"])
   apply (erule predictNap_A_marked [OF latest_A_not_blank])
  apply (simp only: shortNapAdjust_A_events)
  apply (rule fold_invariant [where I = "\<lambda>st. \<forall>e\<in>set (events_w st). lateNapMarked_A (latestNapEndTime (getStandardByMonth_A a)) e"])
   apply (erule observedNap_A_marked)
  apply (rule start_A_marked)
  done

lemma scheduleData_A_marked:
  "\<forall>e\<in>set (events (scheduleData_A a w obs)). lateNapMarked_A (latestNapEndTime (getStandardByMonth_A a)) e"
proof -
  have "lateNapMarked_A l (bedtimeEvent_A c f k)" for l c f k
    by (simp add: lateNapMarked_A_def type_bedtimeEvent_A)
  then show ?thesis
    using walk_A_marked [of a w obs] by (simp add: scheduleData_A_def Let_def)
qed

lemma lateNapWarned_B_mono: "lateNapWarned_B l W e \<Longrightarrow> W \<subseteq> W' \<Longrightarrow> lateNapWarned_B l W' e"
  unfolding lateNapWarned_B_def by blast

lemma start_B_warned: "warned_B l (start_B w s)"
  by (simp add: start_B_def warned_B_def lateNapWarned_B_def)

lemma observedNap_B_warned:
  assumes "warned_B l st" shows "warned_B l (observedNap_B std x st)"
proof -
  obtain index nap where x: "x = (index, nap)" by (cases x)
  have ev: "\<exists>e. events_w (observedNap_B std x st) = events_w st @ [e] \<and> \<not> isPrediction e"
    by (simp add: x observedNap_B_def Let_def)
  have w: "set (warnings_w st) \<subseteq> set (warnings_w (observedNap_B std x st))"
    by (simp add: x observedNap_B_def Let_def)
  show ?thesis
    unfolding warned_B_def
  proof
    fix e assume "e \<in> set (events_w (observedNap_B std x st))"
    then consider "e \<in> set (events_w st)" | "\<not> isPrediction e" using ev by auto
    then show "lateNapWarned_B l (set (warnings_w (observedNap_B std x st))) e"
    proof cases
      case 1
      then show ?thesis using assms w lateNapWarned_B_mono unfolding warned_B_def by blast
    next
      case 2
      then show ?thesis by (simp add: lateNapWarned_B_def)
    qed
  qed
qed

lemma shortNapAdjust_B_warned: "warned_B l st \<Longrightarrow> warned_B l (shortNapAdjust_B obs st)"
  by (simp add: shortNapAdjust_B_def warned_B_def)

lemma predictNap_B_warned:
  assumes "latestNapEndTime std \<noteq> []" "warned_B (latestNapEndTime std) st"
  shows "warned_B (latestNapEndTime std) (predictNap_B a std sw i st)"
proof -
  let ?st' = "predictNap_B a std sw i st"
  let ?l = "latestNapEndTime std"
  have "\<exists>e. events_w ?st' = events_w st @ [e] \<and> alertLevel e = None
          \<and> title e = ''Vorschlag: Nap '' @ toString (napsPlanned st + int i + 1)
          \<and> (\<forall>t. endTime e = Some t \<and> isLater t ?l \<longrightarrow>
                 NapEndetSehrSpaet (napsPlanned st + int i + 1) ?l \<in> set (warnings_w ?st'))"
    using assms(1) by (simp add: predictNap_B_def Let_def isLater_def)
  then have ev: "\<exists>e. events_w ?st' = events_w st @ [e] \<and> lateNapWarned_B ?l (set (warnings_w ?st')) e"
    unfolding lateNapWarned_B_def by blast
  have w: "set (warnings_w st) \<subseteq> set (warnings_w ?st')"
    by (simp add: predictNap_B_def Let_def)
  show ?thesis
    unfolding warned_B_def
  proof
    fix e assume "e \<in> set (events_w ?st')"
    then consider "e \<in> set (events_w st)" | "lateNapWarned_B ?l (set (warnings_w ?st')) e"
      using ev by auto
    then show "lateNapWarned_B ?l (set (warnings_w ?st')) e"
    proof cases
      case 1
      then show ?thesis using assms(2) w lateNapWarned_B_mono unfolding warned_B_def by blast
    next
      case 2
      then show ?thesis .
    qed
  qed
qed

lemma walk_B_warned: "warned_B (latestNapEndTime (getStandardByMonth_B a)) (walk_B a w obs)"
  unfolding walk_B_def Let_def
  apply (rule fold_invariant [where I = "warned_B (latestNapEndTime (getStandardByMonth_B a))"])
   apply (erule predictNap_B_warned [OF latest_B_not_blank])
  apply (rule shortNapAdjust_B_warned)
  apply (rule fold_invariant [where I = "warned_B (latestNapEndTime (getStandardByMonth_B a))"])
   apply (erule observedNap_B_warned)
  apply (rule start_B_warned)
  done

lemma scheduleData_B_warned:
  "\<forall>e\<in>set (events (scheduleData_B a w obs)).
     lateNapWarned_B (latestNapEndTime (getStandardByMonth_B a)) (set (warnings (scheduleData_B a w obs))) e"
proof
  fix e assume e: "e \<in> set (events (scheduleData_B a w obs))"
  let ?l = "latestNapEndTime (getStandardByMonth_B a)"
  have bed: "lateNapWarned_B l W (bedtimeEvent_B c f)" for l W c f
    by (simp add: lateNapWarned_B_def type_bedtimeEvent_B)
  have sub: "set (warnings_w (walk_B a w obs)) \<subseteq> set (warnings (scheduleData_B a w obs))"
    by (simp add: scheduleData_B_def Let_def)
  from e consider "e \<in> set (events_w (walk_B a w obs))" | c f where "e = bedtimeEvent_B c f"
    by (auto simp: scheduleData_B_def Let_def)
  then show "lateNapWarned_B ?l (set (warnings (scheduleData_B a w obs))) e"
  proof cases
    case 1
    then have "lateNapWarned_B ?l (set (warnings_w (walk_B a w obs))) e"
      using walk_B_warned [of a w obs] unfolding warned_B_def by blast
    then show ?thesis using sub by (rule lateNapWarned_B_mono)
  next
    case 2
    then show ?thesis using bed by simp
  qed
qed

lemma pushed_planNap_A: "set (pushed (planNap_A a std i st)) \<subseteq> {WichtigNach75MinutenBeenden}"
  by (simp add: planNap_A_def cappedNap_A_def clockNap_A_def windowNap_A_def Let_def)

lemma warnings_start_A:
  "set (warnings_w (start_A w s)) \<subseteq> {FruehesAufwachenCapping, VorherigerNapKurz, WichtigNach75MinutenBeenden}"
  by (auto simp: start_A_def Let_def)

lemma warnings_observedNap_A: "warnings_w (observedNap_A std x st) = warnings_w st"
  by (cases x) (simp add: observedNap_A_def Let_def)

lemma warnings_shortNapAdjust_A:
  "set (warnings_w st) \<subseteq> {FruehesAufwachenCapping, VorherigerNapKurz, WichtigNach75MinutenBeenden}
   \<Longrightarrow> set (warnings_w (shortNapAdjust_A obs st))
         \<subseteq> {FruehesAufwachenCapping, VorherigerNapKurz, WichtigNach75MinutenBeenden}"
  by (simp add: shortNapAdjust_A_def)

lemma warnings_predictNap_A:
  "set (warnings_w st) \<subseteq> {FruehesAufwachenCapping, VorherigerNapKurz, WichtigNach75MinutenBeenden}
   \<Longrightarrow> set (warnings_w (predictNap_A a std i st))
         \<subseteq> {FruehesAufwachenCapping, VorherigerNapKurz, WichtigNach75MinutenBeenden}"
  using pushed_planNap_A [of a std i st] by (auto simp: predictNap_A_def Let_def)

lemma warnings_walk_A:
  "set (warnings_w (walk_A a w obs))
     \<subseteq> {FruehesAufwachenCapping, VorherigerNapKurz, WichtigNach75MinutenBeenden}"
  unfolding walk_A_def Let_def
  apply (rule fold_invariant [where I = "\<lambda>st. set (warnings_w st)
            \<subseteq> {FruehesAufwachenCapping, VorherigerNapKurz, WichtigNach75MinutenBeenden}"])
   apply (erule warnings_predictNap_A)
  apply (rule warnings_shortNapAdjust_A)
  apply (rule fold_invariant [where I = "\<lambda>st. set (warnings_w st)
            \<subseteq> {FruehesAufwachenCapping, VorherigerNapKurz, WichtigNach75MinutenBeenden}"])
   apply (simp only: warnings_observedNap_A)
  apply (rule warnings_start_A)
  done

lemma eval_A_5_0800:
  "scheduleData_A 5 ''08:00'' [] =
     \<lparr>events =
        [\<lparr>type = Wake, startTime = ''08:00'', endTime = None, title = ''Tagesbeginn'',
          description = [StartSchlafdruck], reasoning = [LichtFruehstueck],
          isPrediction = False, alertLevel = None\<rparr>,
         \<lparr>type = Nap, startTime = ''10:00'', endTime = Some ''11:30'',
          title = ''Vorschlag: Nap 1'', description = [DauerCa 90],
          reasoning = [BasiertAufWachfenster 120], isPrediction = True,
          alertLevel = Some Normal\<rparr>,
         \<lparr>type = Nap, startTime = ''14:00'', endTime = Some ''15:30'',
          title = ''Vorschlag: Nap 2'', description = [DauerCa 90],
          reasoning = [BasiertAufWachfenster 150], isPrediction = True,
          alertLevel = Some Normal\<rparr>,
         \<lparr>type = Nap, startTime = ''18:00'', endTime = Some ''18:30'',
          title = ''Vorschlag: Nap 3'', description = [DauerCa 30],
          reasoning = [BasiertAufWachfenster 150, AchtungNapEndetSpaet ''18:30''],
          isPrediction = True, alertLevel = Some Warning\<rparr>,
         \<lparr>type = Bedtime, startTime = ''20:45'', endTime = None, title = ''Bettzeit'',
          description = [Nachtruhe], reasoning = [WachzeitVorBett 135],
          isPrediction = True, alertLevel = Some Normal\<rparr>],
      warnings = [],
      standard = SLEEP_STANDARDS_A G_4_6\<rparr>"
  by code_simp

lemma eval_B_5_0800:
  "scheduleData_B 5 ''08:00'' [] =
     \<lparr>events =
        [\<lparr>type = Wake, startTime = ''08:00'', endTime = None, title = ''Tagesbeginn'',
          description = [BeginnWachabschnitt], reasoning = [TageslichtAmMorgen],
          isPrediction = False, alertLevel = None\<rparr>,
         \<lparr>type = Nap, startTime = ''10:00'', endTime = Some ''11:30'',
          title = ''Vorschlag: Nap 1'', description = [VoraussichtlicheDauer 90],
          reasoning = [Orientierungswert 5 120], isPrediction = True, alertLevel = None\<rparr>,
         \<lparr>type = Nap, startTime = ''13:45'', endTime = Some ''15:15'',
          title = ''Vorschlag: Nap 2'', description = [VoraussichtlicheDauer 90],
          reasoning = [Orientierungswert 5 135], isPrediction = True, alertLevel = None\<rparr>,
         \<lparr>type = Nap, startTime = ''17:30'', endTime = Some ''18:00'',
          title = ''Vorschlag: Nap 3'', description = [VoraussichtlicheDauer 30],
          reasoning = [Orientierungswert 5 135], isPrediction = True, alertLevel = None\<rparr>,
         \<lparr>type = Bedtime, startTime = ''20:30'', endTime = None, title = ''Bettzeit'',
          description = [BeginnNachtruhe], reasoning = [BerechnungEndeLetzterSchlaf 150],
          isPrediction = True, alertLevel = Some Normal\<rparr>],
      warnings = [NapEndetSehrSpaet 3 ''17:30''],
      standard = SLEEP_STANDARDS_B G_4_6,
      specificWakeWindow = 120\<rparr>"
  by code_simp

lemma later_than_1730: "isLater ''18:30'' ''17:30'' \<and> isLater ''18:00'' ''17:30''"
  by code_simp

text \<open>
  Claim C2, as stated, has both a warning string appended to the warnings and the
  event's severity raised. At five months, awake at 08:00, the third predicted nap ends
  after 17:30 in both versions; the first version leaves the warnings empty, the
  second gives the event no severity.
\<close>

theorem C2_counterexample:
  "type (events (scheduleData_A 5 ''08:00'' []) ! 3) = Nap
   \<and> isPrediction (events (scheduleData_A 5 ''08:00'' []) ! 3)
   \<and> endTime (events (scheduleData_A 5 ''08:00'' []) ! 3) = Some ''18:30''
   \<and> latestNapEndTime (standard (scheduleData_A 5 ''08:00'' [])) = ''17:30''
   \<and> isLater ''18:30'' ''17:30''
   \<and> warnings (scheduleData_A 5 ''08:00'' []) = []
   \<and> type (events (scheduleData_B 5 ''08:00'' []) ! 3) = Nap
   \<and> isPrediction (events (scheduleData_B 5 ''08:00'' []) ! 3)
   \<and> endTime (events (scheduleData_B 5 ''08:00'' []) ! 3) = Some ''18:00''
   \<and> latestNapEndTime (standard (scheduleData_B 5 ''08:00'' [])) = ''17:30''
   \<and> isLater ''18:00'' ''17:30''
   \<and> alertLevel (events (scheduleData_B 5 ''08:00'' []) ! 3) = None"
  by (simp add: eval_A_5_0800 eval_B_5_0800 later_than_1730)

text \<open>
  Claim C2, amended: whenever a predicted nap's computed end time is later than the
  band's \<open>latestNapEndTime\<close>, the first version sets that event's severity to warning
  and ends the event's reasoning with the note on the risk for bedtime (its warnings
  list only ever holds the early-wake, short-nap and capping warnings); the second
  version appends to the warnings a warning that names the nap and the risk for
  bedtime, and sets no severity on the event.
\<close>

theorem C2_late_predicted_nap:
  "(\<forall>e\<in>set (events (scheduleData_A ageMonths wakeTime observed)).
      \<forall>t. type e = Nap \<and> isPrediction e \<and> endTime e = Some t
           \<and> isLater t (latestNapEndTime (standard (scheduleData_A ageMonths wakeTime observed)))
        \<longrightarrow> alertLevel e = Some Warning \<and> reasoning e \<noteq> []
            \<and> last (reasoning e) = AchtungNapEndetSpaet t)
   \<and> set (warnings (scheduleData_A ageMonths wakeTime observed))
        \<subseteq> {FruehesAufwachenCapping, VorherigerNapKurz, WichtigNach75MinutenBeenden}
   \<and> (\<forall>e\<in>set (events (scheduleData_B ageMonths wakeTime observed)).
      \<forall>t. type e = Nap \<and> isPrediction e \<and> endTime e = Some t
           \<and> isLater t (latestNapEndTime (standard (scheduleData_B ageMonths wakeTime observed)))
        \<longrightarrow> alertLevel e = None
            \<and> (\<exists>n. title e = ''Vorschlag: Nap '' @ toString n
                   \<and> NapEndetSehrSpaet n (latestNapEndTime (standard (scheduleData_B ageMonths wakeTime observed)))
                        \<in> set (warnings (scheduleData_B ageMonths wakeTime observed))))"
proof (intro conjI)
  have sA: "standard (scheduleData_A ageMonths wakeTime observed) = getStandardByMonth_A ageMonths"
    by (simp add: scheduleData_A_def Let_def)
  show "\<forall>e\<in>set (events (scheduleData_A ageMonths wakeTime observed)).
      \<forall>t. type e = Nap \<and> isPrediction e \<and> endTime e = Some t
           \<and> isLater t (latestNapEndTime (standard (scheduleData_A ageMonths wakeTime observed)))
        \<longrightarrow> alertLevel e = Some Warning \<and> reasoning e \<noteq> []
            \<and> last (reasoning e) = AchtungNapEndetSpaet t"
    using scheduleData_A_marked [of ageMonths wakeTime observed]
    unfolding sA lateNapMarked_A_def by blast
  show "set (warnings (scheduleData_A ageMonths wakeTime observed))
        \<subseteq> {FruehesAufwachenCapping, VorherigerNapKurz, WichtigNach75MinutenBeenden}"
    using warnings_walk_A [of ageMonths wakeTime observed]
    by (simp add: scheduleData_A_def Let_def)
  have sB: "standard (scheduleData_B ageMonths wakeTime observed) = getStandardByMonth_B ageMonths"
    by (simp add: scheduleData_B_def Let_def)
  show "\<forall>e\<in>set (events (scheduleData_B ageMonths wakeTime observed)).
      \<forall>t. type e = Nap \<and> isPrediction e \<and> endTime e = Some t
           \<and> isLater t (latestNapEndTime (standard (scheduleData_B ageMonths wakeTime observed)))
        \<longrightarrow> alertLevel e = None
            \<and> (\<exists>n. title e = ''Vorschlag: Nap '' @ toString n
                   \<and> NapEndetSehrSpaet n (latestNapEndTime (standard (scheduleData_B ageMonths wakeTime observed)))
                        \<in> set (warnings (scheduleData_B ageMonths wakeTime observed)))"
    using scheduleData_B_warned [of ageMonths wakeTime observed]
    unfolding sB lateNapWarned_B_def by blast
qed


theorem C2_witness:
  "events (scheduleData_A 5 ''08:00'' []) ! 3 \<in> set (events (scheduleData_A 5 ''08:00'' []))
   \<and> type (events (scheduleData_A 5 ''08:00'' []) ! 3) = Nap
   \<and> isPrediction (events (scheduleData_A 5 ''08:00'' []) ! 3)
   \<and> endTime (events (scheduleData_A 5 ''08:00'' []) ! 3) = Some ''18:30''
   \<and> isLater ''18:30'' (latestNapEndTime (standard (scheduleData_A 5 ''08:00'' [])))
   \<and> alertLevel (events (scheduleData_A 5 ''08:00'' []) ! 3) = Some Warning
   \<and> last (reasoning (events (scheduleData_A 5 ''08:00'' []) ! 3)) = AchtungNapEndetSpaet ''18:30''
   \<and> events (scheduleData_B 5 ''08:00'' []) ! 3 \<in> set (events (scheduleData_B 5 ''08:00'' []))
   \<and> type (events (scheduleData_B 5 ''08:00'' []) ! 3) = Nap
   \<and> isPrediction (events (scheduleData_B 5 ''08:00'' []) ! 3)
   \<and> endTime (events (scheduleData_B 5 ''08:00'' []) ! 3) = Some ''18:00''
   \<and> isLater ''18:00'' (latestNapEndTime (standard (scheduleData_B 5 ''08:00'' [])))
   \<and> alertLevel (events (scheduleData_B 5 ''08:00'' []) ! 3) = None
   \<and> (\<exists>n. title (events (scheduleData_B 5 ''08:00'' []) ! 3) = ''Vorschlag: Nap '' @ toString n
          \<and> NapEndetSehrSpaet n (latestNapEndTime (standard (scheduleData_B 5 ''08:00'' [])))
               \<in> set (warnings (scheduleData_B 5 ''08:00'' [])))"
proof -
  have hA: "events (scheduleData_A 5 ''08:00'' []) ! 3 \<in> set (events (scheduleData_A 5 ''08:00'' []))
   \<and> type (events (scheduleData_A 5 ''08:00'' []) ! 3) = Nap
   \<and> isPrediction (events (scheduleData_A 5 ''08:00'' []) ! 3)
   \<and> endTime (events (scheduleData_A 5 ''08:00'' []) ! 3) = Some ''18:30''
   \<and> isLater ''18:30'' (latestNapEndTime (standard (scheduleData_A 5 ''08:00'' [])))"
    by (simp add: eval_A_5_0800 later_than_1730)
  have hB: "events (scheduleData_B 5 ''08:00'' []) ! 3 \<in> set (events (scheduleData_B 5 ''08:00'' []))
   \<and> type (events (scheduleData_B 5 ''08:00'' []) ! 3) = Nap
   \<and> isPrediction (events (scheduleData_B 5 ''08:00'' []) ! 3)
   \<and> endTime (events (scheduleData_B 5 ''08:00'' []) ! 3) = Some ''18:00''
   \<and> isLater ''18:00'' (latestNapEndTime (standard (scheduleData_B 5 ''08:00'' [])))"
    by (simp add: eval_B_5_0800 later_than_1730)
  have cA: "alertLevel (events (scheduleData_A 5 ''08:00'' []) ! 3) = Some Warning
   \<and> last (reasoning (events (scheduleData_A 5 ''08:00'' []) ! 3)) = AchtungNapEndetSpaet ''18:30''"
    using C2_late_predicted_nap [of 5 "''08:00''" "[]"] hA by blast
  have cB: "alertLevel (events (scheduleData_B 5 ''08:00'' []) ! 3) = None
   \<and> (\<exists>n. title (events (scheduleData_B 5 ''08:00'' []) ! 3) = ''Vorschlag: Nap '' @ toString n
          \<and> NapEndetSehrSpaet n (latestNapEndTime (standard (scheduleData_B 5 ''08:00'' [])))
               \<in> set (warnings (scheduleData_B 5 ''08:00'' [])))"
    using C2_late_predicted_nap [of 5 "''08:00''" "[]"] hB by blast
  show ?thesis using hA hB cA cB by blast
qed

subsection \<open>The bedtime event\<close>

lemma finalWakeWindow_A_capped:
  "isStrategicCapping_A a evs \<Longrightarrow> finalWakeWindow_A a std evs = 360"
  by (simp add: finalWakeWindow_A_def Let_def)

lemma last_events_A:
  "last (events (scheduleData_A a w obs)) =
     bedtimeEvent_A (currentTime (walk_A a w obs))
       (finalWakeWindow_A a (getStandardByMonth_A a) (events_w (walk_A a w obs)))
       (isStrategicCapping_A a (events_w (walk_A a w obs)))"
  by (simp add: scheduleData_A_def Let_def)

lemma last_events_B:
  "last (events (scheduleData_B a w obs)) =
     bedtimeEvent_B (currentTime (walk_B a w obs)) (bedtimeWakeWindow_B a (getStandardByMonth_B a))"
  by (simp add: scheduleData_B_def Let_def)

lemma bedtime_A:
  "(let st = walk_A ageMonths wakeTime observed;
        capped = isStrategicCapping_A ageMonths (events_w st);
        window = finalWakeWindow_A ageMonths (getStandardByMonth_A ageMonths) (events_w st);
        instant = addMinutes (currentTime st) window;
        early = num_less (timeToMinutes instant) (Some 1080);
        late = num_less (Some 1260) (timeToMinutes instant);
        e = last (events (scheduleData_A ageMonths wakeTime observed))
    in type e = Bedtime \<and> isPrediction e \<and> startTime e = instant
       \<and> alertLevel e = Some
            (if capped then Warning else if early then Warning
             else if late then Critical else Normal)
       \<and> description e =
            (if capped then [Uhr1815Bis1845] else if early then [AusgleichFruehenStart]
             else [Nachtruhe])
       \<and> reasoning e =
            (if capped then [NachDemWecken1215] else if early then [FrueheBettzeitNoetig]
             else if late then [WachfensterSehrLang] else [WachzeitVorBett window]))"
  unfolding Let_def last_events_A
  by (cases "isStrategicCapping_A ageMonths (events_w (walk_A ageMonths wakeTime observed))")
     (simp_all add: bedtimeEvent_A_def Let_def finalWakeWindow_A_capped)

lemma bedtime_B:
  "(let st = walk_B ageMonths wakeTime observed;
        window = bedtimeWakeWindow_B ageMonths (getStandardByMonth_B ageMonths);
        instant = addMinutes (currentTime st) window;
        early = (num_less (timeToMinutes instant) (Some 1080)
                 \<and> num_less (Some 360) (timeToMinutes instant));
        late = num_less (Some 1260) (timeToMinutes instant);
        e = last (events (scheduleData_B ageMonths wakeTime observed))
    in type e = Bedtime \<and> isPrediction e
       \<and> startTime e = (if early then ''18:00'' else instant)
       \<and> alertLevel e = Some (if early then Warning else if late then Critical else Normal)
       \<and> description e =
            (if early then [FruehereBettzeitStabilisierung]
             else if late then [SpaeterSchlafbeginn] else [BeginnNachtruhe])
       \<and> reasoning e =
            (if early then [Anker1800] else if late then [SecondWind]
             else [BerechnungEndeLetzterSchlaf window]))"
  unfolding Let_def last_events_B
  by (simp add: bedtimeEvent_B_def Let_def)

text \<open>
  Claim C4, as stated, has the bedtime event start at the current time plus the
  bedtime wake window and be classified by that instant alone. After a capped nap the
  first version gives severity warning at 18:15, which is neither before 18:00 nor
  after 21:00; the second version moves a bedtime computed as 16:20 to 18:00.
\<close>

theorem C4_counterexample:
  "type (last (events (scheduleData_A 24 ''05:00'' []))) = Bedtime
   \<and> startTime (last (events (scheduleData_A 24 ''05:00'' []))) = ''18:15''
   \<and> timeToMinutes ''18:15'' = Some 1095
   \<and> alertLevel (last (events (scheduleData_A 24 ''05:00'' []))) = Some Warning
   \<and> currentTime (walk_B 2 ''04:00'' []) = ''14:45''
   \<and> bedtimeWakeWindow_B 2 (getStandardByMonth_B 2) = 95
   \<and> addMinutes ''14:45'' 95 = ''16:20''
   \<and> startTime (last (events (scheduleData_B 2 ''04:00'' []))) = ''18:00''"
  by (intro conjI; code_simp)

text \<open>
  Claim C4, amended: the bedtime instant is the current time plus the bedtime wake
  window. In the first version the bedtime event starts at that instant; after a
  capped nap it is the target bedtime with severity warning whatever the instant;
  otherwise its severity is warning with the early-bedtime description when the
  instant is before 18:00, critical with the overtiredness reasoning when it is after
  21:00, and normal otherwise. In the second version an instant after 06:00 and before
  18:00 gives an event that starts at 18:00 with severity warning; otherwise the event
  starts at the instant, with severity critical and the late-bedtime reasoning when it
  is after 21:00 and severity normal otherwise.
\<close>

theorem C4_bedtime_event:
  "(let st = walk_A ageMonths wakeTime observed;
        capped = isStrategicCapping_A ageMonths (events_w st);
        window = finalWakeWindow_A ageMonths (getStandardByMonth_A ageMonths) (events_w st);
        instant = addMinutes (currentTime st) window;
        early = num_less (timeToMinutes instant) (Some 1080);
        late = num_less (Some 1260) (timeToMinutes instant);
        e = last (events (scheduleData_A ageMonths wakeTime observed))
    in type e = Bedtime \<and> isPrediction e \<and> startTime e = instant
       \<and> alertLevel e = Some
            (if capped then Warning else if early then Warning
             else if late then Critical else Normal)
       \<and> description e =
            (if capped then [Uhr1815Bis1845] else if early then [AusgleichFruehenStart]
             else [Nachtruhe])
       \<and> reasoning e =
            (if capped then [NachDemWecken1215] else if early then [FrueheBettzeitNoetig]
             else if late then [WachfensterSehrLang] else [WachzeitVorBett window]))
   \<and> (let st = walk_B ageMonths wakeTime observed;
        window = bedtimeWakeWindow_B ageMonths (getStandardByMonth_B ageMonths);
        instant = addMinutes (currentTime st) window;
        early = (num_less (timeToMinutes instant) (Some 1080)
                 \<and> num_less (Some 360) (timeToMinutes instant));
        late = num_less (Some 1260) (timeToMinutes instant);
        e = last (events (scheduleData_B ageMonths wakeTime observed))
    in type e = Bedtime \<and> isPrediction e
       \<and> startTime e = (if early then ''18:00'' else instant)
       \<and> alertLevel e = Some (if early then Warning else if late then Critical else Normal)
       \<and> description e =
            (if early then [FruehereBettzeitStabilisierung]
             else if late then [SpaeterSchlafbeginn] else [BeginnNachtruhe])
       \<and> reasoning e =
            (if early then [Anker1800] else if late then [SecondWind]
             else [BerechnungEndeLetzterSchlaf window]))"
  using bedtime_A [of ageMonths wakeTime observed] bedtime_B [of ageMonths wakeTime observed]
  by (rule conjI)

subsection \<open>The two versions\<close>

text \<open>
  Claim C5: there are inputs on which the two versions return different results, and
  each listed difference of policy shows in the schedule. The capping branch: at 24
  months, awake at 05:00, the first version plans the nap at 11:00 for 75 minutes and
  bedtime at 18:15, the second the nap at 12:30 for 90 minutes and bedtime at 19:30.
  The too-long threshold (120 against 150 minutes in the first band): a logged nap of
  130 minutes has severity warning in the first version and normal in the second. The
  reduction after a short nap (0.8 against 0.85): at two months, after a 20-minute nap
  that ends at 10:20, the next nap starts at 11:20 in the first version and at 11:24
  in the second. The widening of the wake window (to the maximum against plus 15): at
  five months, awake at 08:00, the second nap starts at 14:00 in the first version and
  at 13:45 in the second.
\<close>

theorem C5_versions_differ:
  "map startTime (events (scheduleData_A 24 ''05:00'' []))
     \<noteq> map startTime (events (scheduleData_B 24 ''05:00'' []))
   \<and> timeline (scheduleData_A 24 ''05:00'' [])
       = [(Wake, ''05:00'', None, None), (Nap, ''11:00'', Some ''12:15'', Some Warning),
          (Bedtime, ''18:15'', None, Some Warning)]
   \<and> timeline (scheduleData_B 24 ''05:00'' [])
       = [(Wake, ''05:00'', None, None), (Nap, ''12:30'', Some ''14:00'', None),
          (Bedtime, ''19:30'', None, Some Normal)]
   \<and> timeline (scheduleData_A 2 ''06:00''
        [\<lparr>id_nap = ''1'', startTime_nap = ''07:00'', endTime_nap = ''09:10'', duration = Some 130\<rparr>])
       = [(Wake, ''06:00'', None, None), (Nap, ''07:00'', Some ''09:10'', Some Warning),
          (Nap, ''10:25'', Some ''11:55'', Some Normal), (Nap, ''13:25'', Some ''14:55'', Some Normal),
          (Nap, ''16:25'', Some ''16:55'', Some Normal), (Bedtime, ''18:35'', None, Some Normal)]
   \<and> timeline (scheduleData_B 2 ''06:00''
        [\<lparr>id_nap = ''1'', startTime_nap = ''07:00'', endTime_nap = ''09:10'', duration = Some 130\<rparr>])
       = [(Wake, ''06:00'', None, None), (Nap, ''07:00'', Some ''09:10'', Some Normal),
          (Nap, ''10:25'', Some ''11:55'', None), (Nap, ''13:25'', Some ''14:55'', None),
          (Nap, ''16:25'', Some ''16:55'', None), (Bedtime, ''18:30'', None, Some Normal)]
   \<and> timeline (scheduleData_A 2 ''08:00''
        [\<lparr>id_nap = ''1'', startTime_nap = ''10:00'', endTime_nap = ''10:20'', duration = Some 20\<rparr>])
       = [(Wake, ''08:00'', None, None), (Nap, ''10:00'', Some ''10:20'', Some Warning),
          (Nap, ''11:20'', Some ''12:50'', Some Normal), (Nap, ''14:20'', Some ''15:50'', Some Normal),
          (Nap, ''17:20'', Some ''17:50'', Some Normal), (Bedtime, ''19:30'', None, Some Normal)]
   \<and> timeline (scheduleData_B 2 ''08:00''
        [\<lparr>id_nap = ''1'', startTime_nap = ''10:00'', endTime_nap = ''10:20'', duration = Some 20\<rparr>])
       = [(Wake, ''08:00'', None, None), (Nap, ''10:00'', Some ''10:20'', Some Warning),
          (Nap, ''11:24'', Some ''12:54'', None), (Nap, ''14:24'', Some ''15:54'', None),
          (Nap, ''17:24'', Some ''17:54'', None), (Bedtime, ''19:29'', None, Some Normal)]
   \<and> timeline (scheduleData_A 5 ''08:00'' [])
       = [(Wake, ''08:00'', None, None), (Nap, ''10:00'', Some ''11:30'', Some Normal),
          (Nap, ''14:00'', Some ''15:30'', Some Normal), (Nap, ''18:00'', Some ''18:30'', Some Warning),
          (Bedtime, ''20:45'', None, Some Normal)]
   \<and> timeline (scheduleData_B 5 ''08:00'' [])
       = [(Wake, ''08:00'', None, None), (Nap, ''10:00'', Some ''11:30'', None),
          (Nap, ''13:45'', Some ''15:15'', None), (Nap, ''17:30'', Some ''18:00'', None),
          (Bedtime, ''20:30'', None, Some Normal)]"
  by (intro conjI; code_simp)

end
